theory Spec2Isabelle
  imports Complex_Main
begin

section \<open>JavaScript values used by PurchaseForecast.js\<close>

text \<open>
  The component \<^verbatim>\<open>src/src/PurchaseForecast.js\<close> computes with JavaScript numbers
  (IEEE doubles). A number is modelled as a real, or one of the three special values of
  the language. Overflow is modelled: a finite result of magnitude \<open>2^1024 - 2^970\<close>
  or more, the least that rounds to infinity, is \<^verbatim>\<open>Infinity\<close> or \<^verbatim>\<open>-Infinity\<close>.
  Rounding below that magnitude, underflow and the sign of zero are not modelled: there
  the arithmetic is exact.
\<close>

datatype jsnum = Fin real | PInf | NInf | NaN

definition overflow_limit :: real where
  "overflow_limit = 2 ^ 1024 - 2 ^ 970"

text \<open>The number that the exact result \<open>x\<close> of an operation or a conversion becomes.\<close>

definition js_number :: "real \<Rightarrow> jsnum" where
  "js_number x =
     (if overflow_limit \<le> x then PInf else if x \<le> - overflow_limit then NInf else Fin x)"

text \<open>A finite number in the range of the doubles.\<close>

definition finite_number :: "real \<Rightarrow> bool" where
  "finite_number x = (\<bar>x\<bar> < overflow_limit)"

text \<open>Unary minus, \<^verbatim>\<open>+\<close>, \<^verbatim>\<open>-\<close>, \<^verbatim>\<open>*\<close>, \<^verbatim>\<open>/\<close> and \<^verbatim>\<open>%\<close> on numbers.\<close>

fun js_neg :: "jsnum \<Rightarrow> jsnum" where
  "js_neg (Fin a) = Fin (- a)"
| "js_neg PInf = NInf"
| "js_neg NInf = PInf"
| "js_neg NaN = NaN"

fun js_add :: "jsnum \<Rightarrow> jsnum \<Rightarrow> jsnum" where
  "js_add NaN _ = NaN"
| "js_add _ NaN = NaN"
| "js_add (Fin a) (Fin b) = js_number (a + b)"
| "js_add PInf NInf = NaN"
| "js_add NInf PInf = NaN"
| "js_add PInf _ = PInf"
| "js_add NInf _ = NInf"
| "js_add (Fin a) PInf = PInf"
| "js_add (Fin a) NInf = NInf"

definition js_sub :: "jsnum \<Rightarrow> jsnum \<Rightarrow> jsnum" where
  "js_sub a b = js_add a (js_neg b)"

text \<open>The sign of a number that is not NaN: \<open>True\<close> for a negative one.\<close>

fun js_negative :: "jsnum \<Rightarrow> bool" where
  "js_negative (Fin a) = (a < 0)"
| "js_negative NInf = True"
| "js_negative _ = False"

fun js_mul :: "jsnum \<Rightarrow> jsnum \<Rightarrow> jsnum" where
  "js_mul NaN _ = NaN"
| "js_mul _ NaN = NaN"
| "js_mul (Fin a) (Fin b) = js_number (a * b)"
| "js_mul (Fin a) b = (if a = 0 then NaN else if (a < 0) = js_negative b then PInf else NInf)"
| "js_mul a (Fin b) = (if b = 0 then NaN else if (b < 0) = js_negative a then PInf else NInf)"
| "js_mul a b = (if js_negative a = js_negative b then PInf else NInf)"

fun js_div :: "jsnum \<Rightarrow> jsnum \<Rightarrow> jsnum" where
  "js_div NaN _ = NaN"
| "js_div _ NaN = NaN"
| "js_div (Fin a) (Fin b) =
     (if b = 0 then (if a = 0 then NaN else if a < 0 then NInf else PInf)
      else js_number (a / b))"
| "js_div (Fin a) _ = Fin 0"
| "js_div a (Fin b) = (if (b < 0) = js_negative a then PInf else NInf)"
| "js_div _ _ = NaN"

text \<open>
  \<^verbatim>\<open>a % b\<close> is the remainder of the division truncated towards zero: it has the sign
  of the dividend.
\<close>

definition trunc_real :: "real \<Rightarrow> int" where
  "trunc_real x = (if x < 0 then \<lceil>x\<rceil> else \<lfloor>x\<rfloor>)"

fun js_mod :: "jsnum \<Rightarrow> jsnum \<Rightarrow> jsnum" where
  "js_mod (Fin a) (Fin b) =
     (if b = 0 then NaN else Fin (a - b * of_int (trunc_real (a / b))))"
| "js_mod (Fin a) PInf = Fin a"
| "js_mod (Fin a) NInf = Fin a"
| "js_mod _ _ = NaN"

text \<open>\<^verbatim>\<open>Math.floor\<close>, \<^verbatim>\<open>Math.sin\<close>, \<^verbatim>\<open>Math.cos\<close>, \<^verbatim>\<open>Math.PI\<close>.\<close>

fun Math_floor :: "jsnum \<Rightarrow> jsnum" where
  "Math_floor (Fin a) = Fin (of_int \<lfloor>a\<rfloor>)"
| "Math_floor a = a"

fun Math_sin :: "jsnum \<Rightarrow> jsnum" where
  "Math_sin (Fin a) = Fin (sin a)"
| "Math_sin _ = NaN"

fun Math_cos :: "jsnum \<Rightarrow> jsnum" where
  "Math_cos (Fin a) = Fin (cos a)"
| "Math_cos _ = NaN"

definition Math_PI :: jsnum where
  "Math_PI = Fin pi"

text \<open>
  \<^verbatim>\<open>Math.max(...xs)\<close> and \<^verbatim>\<open>Math.min(...xs)\<close>: \<^verbatim>\<open>-Infinity\<close> and \<^verbatim>\<open>Infinity\<close>
  for no argument, NaN as soon as one argument is NaN.
\<close>

fun js_le :: "jsnum \<Rightarrow> jsnum \<Rightarrow> bool" where
  "js_le NaN _ = False"
| "js_le _ NaN = False"
| "js_le NInf _ = True"
| "js_le _ PInf = True"
| "js_le (Fin a) (Fin b) = (a \<le> b)"
| "js_le _ _ = False"

definition js_max2 :: "jsnum \<Rightarrow> jsnum \<Rightarrow> jsnum" where
  "js_max2 a b = (if a = NaN \<or> b = NaN then NaN else if js_le a b then b else a)"

definition js_min2 :: "jsnum \<Rightarrow> jsnum \<Rightarrow> jsnum" where
  "js_min2 a b = (if a = NaN \<or> b = NaN then NaN else if js_le a b then a else b)"

definition Math_max :: "jsnum list \<Rightarrow> jsnum" where
  "Math_max xs = foldl js_max2 NInf xs"

definition Math_min :: "jsnum list \<Rightarrow> jsnum" where
  "Math_min xs = foldl js_min2 PInf xs"

text \<open>
  The values a parsed CSV cell can hold (papaparse with \<^verbatim>\<open>dynamicTyping\<close>): a missing
  column is \<^verbatim>\<open>undefined\<close>, an empty cell \<^verbatim>\<open>null\<close>, and the others booleans, numbers
  and strings. A string is a list of characters with codes below 256.
\<close>

datatype jsval = Undefined | Null | JBool bool | JNum jsnum | JStr string

text \<open>Truthiness (\<^verbatim>\<open>!v\<close>, \<^verbatim>\<open>if (v)\<close>, \<^verbatim>\<open>v || w\<close>).\<close>

definition num_truthy :: "jsnum \<Rightarrow> bool" where
  "num_truthy n = (n \<noteq> Fin 0 \<and> n \<noteq> NaN)"

fun ToBoolean :: "jsval \<Rightarrow> bool" where
  "ToBoolean Undefined = False"
| "ToBoolean Null = False"
| "ToBoolean (JBool b) = b"
| "ToBoolean (JNum n) = num_truthy n"
| "ToBoolean (JStr s) = (s \<noteq> [])"

section \<open>Strings: \<^verbatim>\<open>split\<close>, \<^verbatim>\<open>parseInt\<close>, \<^verbatim>\<open>Number\<close>\<close>

text \<open>
  \<^verbatim>\<open>s.split(c)\<close> for a separator of one character: the pieces between the
  occurrences of \<open>c\<close>, so at least one piece, and an empty piece between two
  adjacent separators.
\<close>

fun split_on :: "char \<Rightarrow> string \<Rightarrow> string list" where
  "split_on c [] = [[]]"
| "split_on c (x # xs) =
     (if x = c then [] # split_on c xs
      else (case split_on c xs of
              [] \<Rightarrow> [[x]]
            | w # ws \<Rightarrow> (x # w) # ws))"

text \<open>White space and line terminators, as \<^verbatim>\<open>parseInt\<close> and \<^verbatim>\<open>Number\<close> trim them.\<close>

definition is_space :: "char \<Rightarrow> bool" where
  "is_space c = (c \<in> set [CHR 0x09, CHR 0x0A, CHR 0x0B, CHR 0x0C, CHR 0x0D, CHR 0x20, CHR 0xA0])"

definition trim_start :: "string \<Rightarrow> string" where
  "trim_start s = dropWhile is_space s"

definition trim :: "string \<Rightarrow> string" where
  "trim s = rev (dropWhile is_space (rev (dropWhile is_space s)))"

definition digit_table :: "(char \<times> nat) list" where
  "digit_table =
     [(CHR ''0'', 0), (CHR ''1'', 1), (CHR ''2'', 2), (CHR ''3'', 3), (CHR ''4'', 4),
      (CHR ''5'', 5), (CHR ''6'', 6), (CHR ''7'', 7), (CHR ''8'', 8), (CHR ''9'', 9),
      (CHR ''a'', 10), (CHR ''b'', 11), (CHR ''c'', 12), (CHR ''d'', 13), (CHR ''e'', 14),
      (CHR ''f'', 15),
      (CHR ''A'', 10), (CHR ''B'', 11), (CHR ''C'', 12), (CHR ''D'', 13), (CHR ''E'', 14),
      (CHR ''F'', 15)]"

definition digit_of :: "char \<Rightarrow> nat option" where
  "digit_of c = map_of digit_table c"

text \<open>A digit of the given radix, and the number a string of such digits denotes.\<close>

definition is_digit :: "nat \<Rightarrow> char \<Rightarrow> bool" where
  "is_digit radix c = (case digit_of c of None \<Rightarrow> False | Some d \<Rightarrow> d < radix)"

definition digits_val :: "nat \<Rightarrow> string \<Rightarrow> nat" where
  "digits_val radix ds =
     foldl (\<lambda>a c. radix * a + (case digit_of c of None \<Rightarrow> 0 | Some d \<Rightarrow> d)) 0 ds"

text \<open>
  \<^verbatim>\<open>parseInt(s, 10)\<close>: leading white space is skipped, then an optional sign, then
  the longest run of decimal digits; NaN when that run is empty. What follows the
  digits is ignored.
\<close>

definition parseInt10 :: "string \<Rightarrow> jsnum" where
  "parseInt10 s =
     (let t = trim_start s;
          neg = (t \<noteq> [] \<and> hd t = CHR ''-'');
          u = (if t \<noteq> [] \<and> (hd t = CHR ''-'' \<or> hd t = CHR ''+'') then tl t else t);
          ds = takeWhile (is_digit 10) u
      in if ds = [] then NaN
         else if neg then js_number (- real (digits_val 10 ds))
         else js_number (real (digits_val 10 ds)))"

text \<open>
  \<^verbatim>\<open>parseInt(parts[i], 10)\<close> on the result of a split: an index past the end reads
  \<^verbatim>\<open>undefined\<close>, which \<^verbatim>\<open>parseInt\<close> converts to the string \<^verbatim>\<open>"undefined"\<close>.
\<close>

definition parseInt_at :: "string list \<Rightarrow> nat \<Rightarrow> jsnum" where
  "parseInt_at parts i =
     (if i < length parts then parseInt10 (parts ! i) else parseInt10 ''undefined'')"

text \<open>
  \<^verbatim>\<open>Number(s)\<close> on a string (the StringNumericLiteral grammar): the trimmed string
  is empty (0), a signed decimal literal (\<^verbatim>\<open>Infinity\<close>, or digits with an optional
  fraction and exponent), or an unsigned binary, octal or hexadecimal integer; anything
  else is NaN.
\<close>

definition exponent_part :: "string \<Rightarrow> int option" where
  "exponent_part r =
     (if r = [] then Some 0
      else if hd r = CHR ''e'' \<or> hd r = CHR ''E'' then
        (let e = tl r;
             neg = (e \<noteq> [] \<and> hd e = CHR ''-'');
             ds = (if e \<noteq> [] \<and> (hd e = CHR ''-'' \<or> hd e = CHR ''+'') then tl e else e)
         in if ds \<noteq> [] \<and> list_all (is_digit 10) ds
            then Some (if neg then - int (digits_val 10 ds) else int (digits_val 10 ds))
            else None)
      else None)"

definition scale10 :: "real \<Rightarrow> int \<Rightarrow> real" where
  "scale10 x e = (if 0 \<le> e then x * 10 ^ nat e else x / 10 ^ nat (- e))"

definition unsigned_decimal :: "string \<Rightarrow> jsnum" where
  "unsigned_decimal s =
     (if s = ''Infinity'' then PInf
      else
        (let ip = takeWhile (is_digit 10) s;
             r1 = dropWhile (is_digit 10) s;
             dot = (r1 \<noteq> [] \<and> hd r1 = CHR ''.'');
             fp = (if dot then takeWhile (is_digit 10) (tl r1) else []);
             r2 = (if dot then dropWhile (is_digit 10) (tl r1) else r1)
         in if ip = [] \<and> fp = [] then NaN
            else (case exponent_part r2 of
                    None \<Rightarrow> NaN
                  | Some e \<Rightarrow>
                      js_number (scale10 (real (digits_val 10 ip)
                                           + real (digits_val 10 fp) / 10 ^ length fp) e))))"

definition radix_literal :: "string \<Rightarrow> jsnum option" where
  "radix_literal s =
     (case s of
        z # p # ds \<Rightarrow>
          (if z \<noteq> CHR ''0'' then None
           else
             (let radix = (if p = CHR ''x'' \<or> p = CHR ''X'' then 16
                           else if p = CHR ''o'' \<or> p = CHR ''O'' then 8
                           else if p = CHR ''b'' \<or> p = CHR ''B'' then 2
                           else (0::nat))
              in if radix = 0 then None
                 else if ds \<noteq> [] \<and> list_all (is_digit radix) ds
                 then Some (js_number (real (digits_val radix ds)))
                 else Some NaN))
      | _ \<Rightarrow> None)"

definition Number_of_string :: "string \<Rightarrow> jsnum" where
  "Number_of_string s =
     (let t = trim s
      in if t = [] then Fin 0
         else (case radix_literal t of
                 Some n \<Rightarrow> n
               | None \<Rightarrow>
                   (if hd t = CHR ''-'' then js_neg (unsigned_decimal (tl t))
                    else if hd t = CHR ''+'' then unsigned_decimal (tl t)
                    else unsigned_decimal t)))"

text \<open>Conversion to a number, as arithmetic, \<^verbatim>\<open>isNaN\<close> and \<^verbatim>\<open>Math.max\<close> apply it.\<close>

fun ToNumber :: "jsval \<Rightarrow> jsnum" where
  "ToNumber Undefined = NaN"
| "ToNumber Null = Fin 0"
| "ToNumber (JBool b) = Fin (if b then 1 else 0)"
| "ToNumber (JNum n) = n"
| "ToNumber (JStr s) = Number_of_string s"

definition isNaN :: "jsval \<Rightarrow> bool" where
  "isNaN v = (ToNumber v = NaN)"

section \<open>The product map\<close>

text \<open>
  \<^verbatim>\<open>newProductMap\<close> starts as the object literal \<^verbatim>\<open>{}\<close>. Its own properties are kept
  in insertion order. The operator \<^verbatim>\<open>in\<close> and a property read also see the
  properties that every object literal inherits from \<^verbatim>\<open>Object.prototype\<close>.
\<close>

type_synonym product_map = "(string \<times> nat) list"

definition Object_prototype_keys :: "string list" where
  "Object_prototype_keys =
     [''constructor'', ''hasOwnProperty'', ''isPrototypeOf'', ''propertyIsEnumerable'',
      ''toLocaleString'', ''toString'', ''valueOf'', ''__proto__'',
      ''__defineGetter__'', ''__defineSetter__'', ''__lookupGetter__'', ''__lookupSetter__'']"

text \<open>What a property read gives when it is not \<^verbatim>\<open>undefined\<close>: a product code, or the
  inherited member of that name (a function or the prototype object).\<close>

datatype propval = Code nat | Inherited string

definition has_property :: "product_map \<Rightarrow> string \<Rightarrow> bool" where
  \<comment> \<open>\<^verbatim>\<open>key in obj\<close>\<close>
  "has_property obj k = (k \<in> fst ` set obj \<or> k \<in> set Object_prototype_keys)"

definition get_property :: "product_map \<Rightarrow> string \<Rightarrow> propval option" where
  \<comment> \<open>\<^verbatim>\<open>obj[key]\<close>; \<open>None\<close> is \<^verbatim>\<open>undefined\<close>\<close>
  "get_property obj k =
     (case map_of obj k of
        Some n \<Rightarrow> Some (Code n)
      | None \<Rightarrow> if k \<in> set Object_prototype_keys then Some (Inherited k) else None)"

definition add_property :: "product_map \<Rightarrow> string \<Rightarrow> nat \<Rightarrow> product_map" where
  \<comment> \<open>\<^verbatim>\<open>obj[key] = n\<close> for a key the object does not have\<close>
  "add_property obj k n = obj @ [(k, n)]"

section \<open>Data of the component\<close>

text \<open>
  A row of the parsed CSV (lines 27--31). The product description is the property key
  it is used as.
\<close>

record entry =
  sales_date :: jsval
  product_description :: string
  quantity_sold :: jsval

text \<open>
  The objects built at lines 65--69 and 78--81, with fields \<^verbatim>\<open>month\<close>,
  \<^verbatim>\<open>product_description\<close> and \<^verbatim>\<open>quantity_sold\<close>.
\<close>

record datum =
  d_month :: jsnum
  d_product_description :: "propval option"
  d_quantity_sold :: jsval

record prepared =
  normalizedData :: "datum list"
  maxQuantity :: jsnum
  minQuantity :: jsnum

text \<open>
  A forecast point (lines 153--157). Its \<^verbatim>\<open>sales_date\<close> is the template string
  \<^verbatim>\<open>`${monthNames[nextMonth - 1]} ${nextYear}`\<close>, kept as its two interpolated values;
  \<open>None\<close> is \<^verbatim>\<open>undefined\<close>.
\<close>

record forecast =
  f_sales_date :: "string option \<times> jsnum"
  f_product_description :: string
  f_quantity_sold :: jsnum

text \<open>
  The state of the component that the pipeline reads and writes (lines 12--17). The
  parsed rows are an argument of the pipeline, and the flag \<^verbatim>\<open>loading\<close> is only
  shown: both are left out.
\<close>

record component_state =
  productMap :: product_map
  startDate :: string
  selectedProduct :: string
  predictions :: "forecast list"

text \<open>
  What the code can throw: a \<^verbatim>\<open>TypeError\<close> of the language, or an error of the
  TensorFlow library.
\<close>

datatype error = TypeError | LibraryError string

text \<open>
  The TensorFlow model is outside the repository. A fitted model is a parameter: the
  function from the input row \<^verbatim>\<open>[sinMonth, cosMonth, productIndex]\<close> to
  \<^verbatim>\<open>model.predict(...).dataSync()[0]\<close>, which may throw. The trainer (lines 98--113)
  is a parameter too.
\<close>

type_synonym features = "jsnum \<times> jsnum \<times> propval option"

type_synonym model = "features \<Rightarrow> error + jsnum"

type_synonym trainer = "features list \<Rightarrow> jsval list \<Rightarrow> error + model"

section \<open>preprocessData (lines 45--86)\<close>

text \<open>
  The month index of a date string (lines 56--58 and 66): the part before the first
  space is split at \<^verbatim>\<open>/\<close>; the first field is the month, the third the year.
\<close>

definition month_index :: "string \<Rightarrow> error + jsnum" where
  "month_index s =
     (case split_on (CHR '' '') s of
        [] \<Rightarrow> Inl TypeError
      | d # _ \<Rightarrow>
          (let dateParts = split_on (CHR ''/'') d;
               month = parseInt_at dateParts 0;
               year = parseInt_at dateParts 2
           in Inr (js_add (js_mul year (Fin 12)) month)))"

text \<open>
  The callback of \<^verbatim>\<open>data.map\<close> (lines 50--70). It reads and writes the two
  variables \<^verbatim>\<open>newProductMap\<close> and \<^verbatim>\<open>productIndex\<close> of the enclosing function, which
  are passed in and returned. \<open>None\<close> is the \<^verbatim>\<open>null\<close> of an invalid entry. A
  \<^verbatim>\<open>sales_date\<close> that is truthy and not a string has no method \<^verbatim>\<open>split\<close>.
\<close>

definition invalid_entry :: "entry \<Rightarrow> bool" where
  \<comment> \<open>the test of line 51\<close>
  "invalid_entry entry = (\<not> ToBoolean (sales_date entry) \<or> isNaN (quantity_sold entry))"

definition map_entry ::
  "product_map \<times> nat \<Rightarrow> entry \<Rightarrow> error + (datum option \<times> (product_map \<times> nat))" where
  "map_entry vars entry =
     (let newProductMap = fst vars; productIndex = snd vars in
      if invalid_entry entry
      then Inr (None, vars)
      else
        (case sales_date entry of
           JStr s \<Rightarrow>
             (case month_index s of
                Inl e \<Rightarrow> Inl e
              | Inr m \<Rightarrow>
                  (let vars' =
                         (if \<not> has_property newProductMap (product_description entry)
                          then (add_property newProductMap (product_description entry) productIndex,
                                productIndex + 1)
                          else vars);
                       productDescriptionEncoded =
                         get_property (fst vars') (product_description entry)
                   in Inr (Some \<lparr>d_month = m,
                                  d_product_description = productDescriptionEncoded,
                                  d_quantity_sold = quantity_sold entry\<rparr>,
                           vars')))
         | _ \<Rightarrow> Inl TypeError))"

fun map_entries ::
  "product_map \<times> nat \<Rightarrow> entry list \<Rightarrow> error + (datum option list \<times> (product_map \<times> nat))" where
  "map_entries vars [] = Inr ([], vars)"
| "map_entries vars (e # es) =
     (case map_entry vars e of
        Inl err \<Rightarrow> Inl err
      | Inr (r, vars') \<Rightarrow>
          (case map_entries vars' es of
             Inl err \<Rightarrow> Inl err
           | Inr (rs, vars'') \<Rightarrow> Inr (r # rs, vars'')))"

text \<open>\<^verbatim>\<open>.filter(Boolean)\<close> on a list of objects and nulls.\<close>

definition filter_Boolean :: "'a option list \<Rightarrow> 'a list" where
  "filter_Boolean xs = concat (map (\<lambda>x. case x of None \<Rightarrow> [] | Some r \<Rightarrow> [r]) xs)"

text \<open>Line 77: \<^verbatim>\<open>maxQuantity - minQuantity || 1\<close>.\<close>

definition quantity_range :: "jsnum \<Rightarrow> jsnum \<Rightarrow> jsnum" where
  "quantity_range maxQ minQ =
     (let r = js_sub maxQ minQ in if num_truthy r then r else Fin 1)"

text \<open>Line 80: \<^verbatim>\<open>(d.quantity_sold - minQuantity) / range\<close>.\<close>

definition normalize_q :: "jsnum \<Rightarrow> jsnum \<Rightarrow> jsval \<Rightarrow> jsnum" where
  "normalize_q minQ rng q = js_div (js_sub (ToNumber q) minQ) rng"

text \<open>
  The processed entries and the final product map (lines 46--71), then the scaling
  (lines 73--85). The second component of the result is the argument of
  \<^verbatim>\<open>setProductMap\<close>.
\<close>

definition processData :: "entry list \<Rightarrow> error + (datum list \<times> product_map)" where
  "processData data =
     (case map_entries ([], 0) data of
        Inl err \<Rightarrow> Inl err
      | Inr (mapped, vars) \<Rightarrow> Inr (filter_Boolean mapped, fst vars))"

definition preprocessData :: "entry list \<Rightarrow> error + (prepared \<times> product_map)" where
  "preprocessData data =
     (case processData data of
        Inl err \<Rightarrow> Inl err
      | Inr (processedData, newProductMap) \<Rightarrow>
          (let quantities = map d_quantity_sold processedData;
               maxQ = Math_max (map ToNumber quantities);
               minQ = Math_min (map ToNumber quantities);
               rng = quantity_range maxQ minQ
           in Inr (\<lparr>normalizedData =
                       map (\<lambda>d. d\<lparr>d_quantity_sold := JNum (normalize_q minQ rng (d_quantity_sold d))\<rparr>)
                         processedData,
                     maxQuantity = maxQ,
                     minQuantity = minQ\<rparr>,
                   newProductMap)))"

section \<open>trainModel (lines 88--114)\<close>

text \<open>\<^verbatim>\<open>(2 * Math.PI * p) / 12\<close>, the argument of the sine and the cosine.\<close>

definition cyclic_angle :: "jsnum \<Rightarrow> jsnum" where
  "cyclic_angle p = js_div (js_mul (js_mul (Fin 2) Math_PI) p) (Fin 12)"

text \<open>The phase of a training example: \<^verbatim>\<open>d.month % 12\<close> (lines 91--92).\<close>

definition train_phase :: "datum \<Rightarrow> jsnum" where
  "train_phase d = js_mod (d_month d) (Fin 12)"

definition training_features :: "datum \<Rightarrow> features" where
  "training_features d =
     (Math_sin (cyclic_angle (train_phase d)),
      Math_cos (cyclic_angle (train_phase d)),
      d_product_description d)"

definition trainModel :: "trainer \<Rightarrow> datum list \<Rightarrow> error + model" where
  "trainModel fit nd = fit (map training_features nd) (map d_quantity_sold nd)"

section \<open>predictSales (lines 116--162)\<close>

text \<open>
  Line 118: \<^verbatim>\<open>const [year, month] = startDate.split("-").map(Number)\<close>. An element
  the array does not have is \<^verbatim>\<open>undefined\<close>.
\<close>

definition start_parts :: "string \<Rightarrow> jsnum list" where
  "start_parts s = map Number_of_string (split_on (CHR ''-'') s)"

definition element_at :: "jsnum list \<Rightarrow> nat \<Rightarrow> jsval" where
  "element_at xs i = (if i < length xs then JNum (xs ! i) else Undefined)"

definition monthNames :: "string list" where
  "monthNames =
     [''January'', ''February'', ''March'', ''April'', ''May'', ''June'', ''July'',
      ''August'', ''September'', ''October'', ''November'', ''December'']"

text \<open>\<^verbatim>\<open>monthNames[n]\<close>: an element only at an integer index from 0 to 11.\<close>

definition monthNames_at :: "jsnum \<Rightarrow> string option" where
  "monthNames_at n =
     (case n of
        Fin r \<Rightarrow>
          if r = of_int \<lfloor>r\<rfloor> \<and> 0 \<le> r \<and> r < 12 then Some (monthNames ! nat \<lfloor>r\<rfloor>) else None
      | _ \<Rightarrow> None)"

text \<open>Lines 138 and 139.\<close>

definition nextMonth :: "jsval \<Rightarrow> nat \<Rightarrow> jsnum" where
  "nextMonth month i =
     js_add (js_mod (js_sub (js_add (ToNumber month) (Fin (real i))) (Fin 1)) (Fin 12)) (Fin 1)"

definition nextYear :: "jsval \<Rightarrow> jsval \<Rightarrow> nat \<Rightarrow> jsnum" where
  "nextYear year month i =
     js_add (ToNumber year)
       (Math_floor (js_div (js_sub (js_add (ToNumber month) (Fin (real i))) (Fin 1)) (Fin 12)))"

text \<open>The phase of a forecast month: \<^verbatim>\<open>nextMonth - 1\<close> (lines 143--144).\<close>

definition predict_phase :: "jsnum \<Rightarrow> jsnum" where
  "predict_phase nm = js_sub nm (Fin 1)"

definition forecast_features :: "product_map \<Rightarrow> string \<Rightarrow> jsnum \<Rightarrow> features" where
  "forecast_features pm sel nm =
     (Math_sin (cyclic_angle (predict_phase nm)),
      Math_cos (cyclic_angle (predict_phase nm)),
      get_property pm sel)"

text \<open>Line 150: \<^verbatim>\<open>normalizedPrediction * (maxQuantity - minQuantity) + minQuantity\<close>.\<close>

definition denormalize_q :: "jsnum \<Rightarrow> jsnum \<Rightarrow> jsnum \<Rightarrow> jsnum" where
  "denormalize_q maxQ minQ normalizedPrediction =
     js_add (js_mul normalizedPrediction (js_sub maxQ minQ)) minQ"

definition forecast_point ::
  "jsnum \<Rightarrow> jsnum \<Rightarrow> component_state \<Rightarrow> jsval \<Rightarrow> jsval \<Rightarrow> nat \<Rightarrow> jsnum \<Rightarrow> forecast" where
  "forecast_point maxQ minQ st year month i normalizedPrediction =
     \<lparr>f_sales_date = (monthNames_at (js_sub (nextMonth month i) (Fin 1)), nextYear year month i),
      f_product_description = selectedProduct st,
      f_quantity_sold = denormalize_q maxQ minQ normalizedPrediction\<rparr>"

text \<open>
  The loop of lines 136--159, from the iteration \<open>i\<close> on, with the points pushed so far.
  An error of the model ends it.
\<close>

function predict_loop ::
  "model \<Rightarrow> jsnum \<Rightarrow> jsnum \<Rightarrow> component_state \<Rightarrow> jsval \<Rightarrow> jsval \<Rightarrow> nat \<Rightarrow> forecast list
     \<Rightarrow> error + forecast list" where
  "predict_loop mdl maxQ minQ st year month i futurePredictions =
     (if i < 6 then
        (if selectedProduct st \<noteq> [] then
           (case mdl (forecast_features (productMap st) (selectedProduct st) (nextMonth month i)) of
              Inl err \<Rightarrow> Inl err
            | Inr normalizedPrediction \<Rightarrow>
                predict_loop mdl maxQ minQ st year month (Suc i)
                  (futurePredictions
                     @ [forecast_point maxQ minQ st year month i normalizedPrediction]))
         else predict_loop mdl maxQ minQ st year month (Suc i) futurePredictions)
      else Inr futurePredictions)"
  by pat_completeness auto
termination
  by (relation "measure (\<lambda>(mdl, maxQ, minQ, st, year, month, i, fp). 6 - i)") auto

definition predictSales ::
  "model \<Rightarrow> jsnum \<Rightarrow> jsnum \<Rightarrow> component_state \<Rightarrow> error + component_state" where
  "predictSales mdl maxQ minQ st =
     (let parts = start_parts (startDate st);
          year = element_at parts 0;
          month = element_at parts 1
      in case predict_loop mdl maxQ minQ st year month 0 [] of
           Inl err \<Rightarrow> Inl err
         | Inr futurePredictions \<Rightarrow> Inr (st\<lparr>predictions := futurePredictions\<rparr>))"

section \<open>handleTrainModel (lines 164--170)\<close>

text \<open>
  One run of the pipeline. \<^verbatim>\<open>predictSales\<close> reads the \<^verbatim>\<open>productMap\<close>,
  \<^verbatim>\<open>startDate\<close> and \<^verbatim>\<open>selectedProduct\<close> of the render that created the handler, so
  the map set by \<^verbatim>\<open>setProductMap\<close> during this run is in the state only afterwards.
\<close>

definition handleTrainModel ::
  "trainer \<Rightarrow> component_state \<Rightarrow> entry list \<Rightarrow> error + component_state" where
  "handleTrainModel fit st parsedData =
     (case preprocessData parsedData of
        Inl err \<Rightarrow> Inl err
      | Inr (prep, newProductMap) \<Rightarrow>
          (case trainModel fit (normalizedData prep) of
             Inl err \<Rightarrow> Inl err
           | Inr mdl \<Rightarrow>
               (case predictSales mdl (maxQuantity prep) (minQuantity prep) st of
                  Inl err \<Rightarrow> Inl err
                | Inr st' \<Rightarrow> Inr (st'\<lparr>productMap := newProductMap\<rparr>))))"

section \<open>Notions used in the statements\<close>

text \<open>
  The scaler in the words of the specification (section 4.3), on finite numbers:
  \<^verbatim>\<open>range = max(max-min, 1)\<close>, \<^verbatim>\<open>normalize(v) = (v - min) / range\<close>,
  \<^verbatim>\<open>denormalize(n) = n * range + min\<close>. It is compared with \<open>quantity_range\<close>,
  \<open>normalize_q\<close> and \<open>denormalize_q\<close> above, which are the code's.
\<close>

definition spec_range :: "real \<Rightarrow> real \<Rightarrow> real" where
  "spec_range mx mn = max (mx - mn) 1"

definition spec_normalize :: "real \<Rightarrow> real \<Rightarrow> real \<Rightarrow> real" where
  "spec_normalize mx mn v = (v - mn) / spec_range mx mn"

definition spec_denormalize :: "real \<Rightarrow> real \<Rightarrow> real \<Rightarrow> real" where
  "spec_denormalize mx mn n = n * spec_range mx mn + mn"

text \<open>
  A processed record \<open>r\<close> is the image of the raw entry \<open>e\<close>: the quantity is carried
  over unchanged, and the month index is the one of the entry's date string.
\<close>

definition emitted_from :: "datum \<Rightarrow> entry \<Rightarrow> bool" where
  "emitted_from r e =
     (d_quantity_sold r = quantity_sold e \<and>
      (case sales_date e of
         JStr s \<Rightarrow> month_index s = Inr (d_month r)
       | _ \<Rightarrow> False))"

definition is_string :: "jsval \<Rightarrow> bool" where
  "is_string v = (case v of JStr s \<Rightarrow> True | _ \<Rightarrow> False)"

text \<open>
  The descriptions of a list in the order of their first appearance, and the map that
  gives the \<open>i\<close>-th of them the code \<open>i\<close>.
\<close>

definition first_seen_from :: "string list \<Rightarrow> string list \<Rightarrow> string list" where
  "first_seen_from ks ds = foldl (\<lambda>acc d. if d \<in> set acc then acc else acc @ [d]) ks ds"

definition first_seen :: "string list \<Rightarrow> string list" where
  "first_seen ds = first_seen_from [] ds"

definition dense_codes :: "string list \<Rightarrow> product_map" where
  "dense_codes ks = zip ks [0..<length ks]"

text \<open>
  The invariant of a clean record in the words of the specification (section 3): the
  quantity is a finite non-negative number and the month index is an integer.
\<close>

definition CleanRecord_invariant :: "datum \<Rightarrow> bool" where
  "CleanRecord_invariant r =
     ((case d_quantity_sold r of JNum (Fin q) \<Rightarrow> 0 \<le> q | _ \<Rightarrow> False) \<and>
      (case d_month r of Fin m \<Rightarrow> m = of_int \<lfloor>m\<rfloor> | _ \<Rightarrow> False))"

declare predict_loop.simps [simp del]

section \<open>Arithmetic on finite numbers\<close>

lemma overflow_limit_large: "2 ^ 1023 < overflow_limit"
  by (simp add: overflow_limit_def)

lemma js_number_Fin: "finite_number x \<Longrightarrow> js_number x = Fin x"
  by (auto simp: js_number_def finite_number_def)

lemma finite_number_small: "\<bar>x\<bar> \<le> 2 ^ 64 \<Longrightarrow> finite_number x"
proof -
  assume "\<bar>x\<bar> \<le> 2 ^ 64"
  moreover have "(2::real) ^ 64 < 2 ^ 1023" by simp
  ultimately show ?thesis
    using overflow_limit_large by (simp add: finite_number_def)
qed

lemma js_number_small: "\<bar>x\<bar> \<le> 2 ^ 64 \<Longrightarrow> js_number x = Fin x"
  by (simp add: js_number_Fin finite_number_small)

lemma finite_number_between:
  assumes "finite_number a" and "finite_number b" and "a \<le> x" and "x \<le> b"
  shows "finite_number x"
  using assms by (auto simp: finite_number_def abs_if split: if_splits)

lemma finite_number_0: "finite_number 0"
  by (simp add: finite_number_small)

lemma js_sub_Fin: "js_sub (Fin a) (Fin b) = js_number (a - b)"
  by (simp add: js_sub_def)

lemma js_add_NaN_right: "js_add a NaN = NaN"
  by (cases a) simp_all

lemma js_max2_Fin: "js_max2 (Fin a) (Fin b) = Fin (max a b)"
  by (simp add: js_max2_def max_def)

lemma js_min2_Fin: "js_min2 (Fin a) (Fin b) = Fin (min a b)"
  by (simp add: js_min2_def min_def)

lemma foldl_js_max2_Fin: "foldl js_max2 (Fin a) (map Fin xs) = Fin (fold max xs a)"
  by (induction xs arbitrary: a) (simp_all add: js_max2_Fin max.commute)

lemma foldl_js_min2_Fin: "foldl js_min2 (Fin a) (map Fin xs) = Fin (fold min xs a)"
  by (induction xs arbitrary: a) (simp_all add: js_min2_Fin min.commute)

lemma Math_max_Fin: "xs \<noteq> [] \<Longrightarrow> Math_max (map Fin xs) = Fin (Max (set xs))"
proof (cases xs)
  case Nil
  assume "xs \<noteq> []" with Nil show ?thesis by simp
next
  case (Cons x ys)
  have "js_max2 NInf (Fin x) = Fin x" by (simp add: js_max2_def)
  then show ?thesis
    using Cons Max.set_eq_fold[of x ys] by (simp add: Math_max_def foldl_js_max2_Fin)
qed

lemma Math_min_Fin: "xs \<noteq> [] \<Longrightarrow> Math_min (map Fin xs) = Fin (Min (set xs))"
proof (cases xs)
  case Nil
  assume "xs \<noteq> []" with Nil show ?thesis by simp
next
  case (Cons x ys)
  have "js_min2 PInf (Fin x) = Fin x" by (simp add: js_min2_def)
  then show ?thesis
    using Cons Min.set_eq_fold[of x ys] by (simp add: Math_min_def foldl_js_min2_Fin)
qed

lemma quantity_range_Fin:
  assumes "finite_number (mx - mn)"
  shows "quantity_range (Fin mx) (Fin mn) = Fin (if mx = mn then 1 else mx - mn)"
  by (simp add: quantity_range_def js_sub_Fin js_number_Fin[OF assms] num_truthy_def Let_def)

text \<open>
  A quantity between the minimum and the maximum is normalized to a number between 0
  and 1, without overflow when the range does not overflow.
\<close>

lemma normalize_q_Fin:
  assumes "finite_number (mx - mn)" and "mn \<le> v" and "v \<le> mx"
  shows "normalize_q (Fin mn) (quantity_range (Fin mx) (Fin mn)) (JNum (Fin v))
           = Fin ((v - mn) / (if mx = mn then 1 else mx - mn))"
proof -
  let ?rng = "if mx = mn then 1 else mx - mn"
  have rng: "0 < ?rng" using assms(2,3) by auto
  have "finite_number (v - mn)"
    using finite_number_between[OF finite_number_0 assms(1)] assms(2,3) by simp
  then have sub: "js_sub (Fin v) (Fin mn) = Fin (v - mn)"
    by (simp add: js_sub_Fin js_number_Fin)
  have "0 \<le> (v - mn) / ?rng" using assms(2) rng by simp
  moreover have "(v - mn) / ?rng \<le> 1" using assms(2,3) by auto
  ultimately have "finite_number ((v - mn) / ?rng)"
    by (intro finite_number_small) simp
  then have "js_div (Fin (v - mn)) (Fin ?rng) = Fin ((v - mn) / ?rng)"
    using rng by (simp add: js_number_Fin)
  then show ?thesis
    by (simp only: normalize_q_def ToNumber.simps sub quantity_range_Fin[OF assms(1)])
qed

lemma denormalize_q_Fin:
  assumes "finite_number (mx - mn)" and "finite_number (n * (mx - mn))"
    and "finite_number (n * (mx - mn) + mn)"
  shows "denormalize_q (Fin mx) (Fin mn) (Fin n) = Fin (n * (mx - mn) + mn)"
  by (simp add: denormalize_q_def js_sub_Fin js_number_Fin assms)

lemma js_mod_12_of_int:
  assumes "0 \<le> k"
  shows "js_mod (Fin (of_int k)) (Fin 12) = Fin (of_int (k mod 12))"
proof -
  have "\<not> (real_of_int k / 12 < 0)" using assms by simp
  moreover have "\<lfloor>real_of_int k / 12\<rfloor> = k div 12"
    using floor_divide_of_int_eq[of k 12, where ?'a = real] by simp
  moreover have "real_of_int k - 12 * real_of_int (k div 12) = real_of_int (k mod 12)"
    by (simp add: minus_mult_div_eq_mod[symmetric] algebra_simps)
  ultimately show ?thesis by (simp add: trunc_real_def)
qed

lemma js_number_of_int:
  assumes "\<bar>k\<bar> \<le> 2 ^ 64"
  shows "js_number (of_int k) = Fin (of_int k)"
proof -
  from assms have "\<bar>real_of_int k\<bar> \<le> real_of_int (2 ^ 64)"
    by (simp only: of_int_abs[symmetric] of_int_le_iff)
  then show ?thesis by (intro js_number_small) simp
qed

lemma floor_div_12_of_int:
  assumes "\<bar>k\<bar> \<le> 2 ^ 64"
  shows "Math_floor (js_div (Fin (of_int k)) (Fin 12)) = Fin (of_int (k div 12))"
proof -
  from assms have "\<bar>real_of_int k\<bar> \<le> real_of_int (2 ^ 64)"
    by (simp only: of_int_abs[symmetric] of_int_le_iff)
  then have "\<bar>real_of_int k / 12\<bar> \<le> 2 ^ 64" by simp
  then have "js_number (real_of_int k / 12) = Fin (real_of_int k / 12)"
    by (rule js_number_small)
  then show ?thesis
    using floor_divide_of_int_eq[of k 12, where ?'a = real] by simp
qed

text \<open>
  Lines 138 and 139 on an integer year of magnitude below \<open>2^53\<close>, a month from 1 to
  12 and an iteration below 6.
\<close>

lemma month_offset:
  assumes "i < 6" and "1 \<le> m" and "m \<le> 12"
  shows "js_sub (js_add (Fin (of_int m)) (Fin (real i))) (Fin 1) = Fin (of_int (m + int i - 1))"
proof -
  have a: "js_number (of_int (m + int i)) = Fin (of_int (m + int i))"
    by (rule js_number_of_int) (use assms in simp)
  have b: "js_number (of_int (m + int i - 1)) = Fin (of_int (m + int i - 1))"
    by (rule js_number_of_int) (use assms in simp)
  have "js_add (Fin (of_int m)) (Fin (real i)) = Fin (of_int (m + int i))"
    using a by simp
  then show ?thesis
    using b by (simp add: js_sub_Fin)
qed

lemma nextMonth_int:
  assumes "i < 6" and "1 \<le> m" and "m \<le> 12"
  shows "nextMonth (JNum (Fin (of_int m))) i = Fin (of_int ((m + int i - 1) mod 12 + 1))"
proof -
  let ?k = "m + int i - 1"
  have nonneg: "0 \<le> ?k" using assms by simp
  have "0 \<le> ?k mod 12" "?k mod 12 < 12" by simp_all
  then have "\<bar>?k mod 12 + 1\<bar> \<le> 2 ^ 64" by simp
  then have n: "js_number (of_int (?k mod 12 + 1)) = Fin (of_int (?k mod 12 + 1))"
    by (rule js_number_of_int)
  have "nextMonth (JNum (Fin (of_int m))) i = js_add (Fin (of_int (?k mod 12))) (Fin 1)"
    by (simp only: nextMonth_def ToNumber.simps month_offset[OF assms]
          js_mod_12_of_int[OF nonneg])
  also have "\<dots> = js_number (of_int (?k mod 12 + 1))"
    by simp
  finally show ?thesis using n by simp
qed

lemma nextYear_int:
  assumes "i < 6" and "1 \<le> m" and "m \<le> 12" and "\<bar>y\<bar> < 2 ^ 53"
  shows "nextYear (JNum (Fin (of_int y))) (JNum (Fin (of_int m))) i =
           Fin (of_int (y + (m + int i - 1) div 12))"
proof -
  let ?k = "m + int i - 1"
  have small: "\<bar>?k\<bar> \<le> 2 ^ 64" using assms by simp
  have "0 \<le> ?k div 12" "?k div 12 \<le> 1"
    using assms by simp_all
  with assms(4) have "\<bar>y + ?k div 12\<bar> \<le> 2 ^ 64" by simp
  then have n: "js_number (of_int (y + ?k div 12)) = Fin (of_int (y + ?k div 12))"
    by (rule js_number_of_int)
  have "nextYear (JNum (Fin (of_int y))) (JNum (Fin (of_int m))) i
          = js_add (Fin (of_int y)) (Fin (of_int (?k div 12)))"
    by (simp only: nextYear_def ToNumber.simps month_offset[OF assms(1-3)]
          floor_div_12_of_int[OF small])
  also have "\<dots> = js_number (of_int (y + ?k div 12))"
    by simp
  finally show ?thesis using n by simp
qed

section \<open>Evaluation rules\<close>

lemmas number_defs =
  Number_of_string_def trim_def trim_start_def is_space_def radix_literal_def
  unsigned_decimal_def is_digit_def digit_of_def digit_table_def digits_val_def exponent_part_def scale10_def
  parseInt10_def parseInt_at_def js_number_small

lemmas preprocess_defs =
  preprocessData_def processData_def map_entry_def invalid_entry_def isNaN_def
  num_truthy_def month_index_def has_property_def get_property_def add_property_def
  Object_prototype_keys_def filter_Boolean_def Math_max_def Math_min_def js_max2_def
  js_min2_def quantity_range_def normalize_q_def js_sub_def

text \<open>Overflow in a conversion, a subtraction and a product.\<close>

lemma overflow_examples:
  "Number_of_string ''1e400'' = PInf
   \<and> js_sub (Fin (2 ^ 1023)) (Fin (- (2 ^ 1023))) = PInf
   \<and> js_mul (Fin (- (2 ^ 600))) (Fin (2 ^ 600)) = NInf"
  by (simp add: number_defs js_sub_def js_number_def overflow_limit_def)

text \<open>The argument of the sine and the cosine for a phase of moderate size.\<close>

lemma cyclic_angle_Fin:
  assumes "\<bar>p\<bar> \<le> 2 ^ 32"
  shows "cyclic_angle (Fin p) = Fin (2 * pi * p / 12)"
proof -
  have pi8: "\<bar>2 * pi\<bar> \<le> 8" using pi_less_4 pi_ge_zero by simp
  then have a: "js_number (2 * pi) = Fin (2 * pi)"
    by (intro js_number_small) simp
  have "\<bar>2 * pi * p\<bar> = \<bar>2 * pi\<bar> * \<bar>p\<bar>" by (simp only: abs_mult)
  also have "\<dots> \<le> 8 * 2 ^ 32"
    using pi8 assms by (intro mult_mono) simp_all
  finally have prod: "\<bar>2 * pi * p\<bar> \<le> 8 * 2 ^ 32" .
  then have b: "js_number (2 * pi * p) = Fin (2 * pi * p)"
    by (intro js_number_small) simp
  from prod have "\<bar>2 * pi * p / 12\<bar> \<le> 8 * 2 ^ 32" by simp
  then have c: "js_number (2 * pi * p / 12) = Fin (2 * pi * p / 12)"
    by (intro js_number_small) simp
  show ?thesis
    by (simp only: cyclic_angle_def Math_PI_def js_mul.simps js_div.simps a b c) simp
qed

section \<open>The validation pass\<close>

lemma split_on_nonempty: "split_on c s \<noteq> []"
  by (induction s) (auto split: list.splits)

lemma split_on_no_separator: "c \<notin> set s \<Longrightarrow> split_on c s = [s]"
  by (induction s) auto

lemma month_index_total: "\<exists>m. month_index s = Inr m"
proof (cases "split_on (CHR '' '') s")
  case Nil
  then show ?thesis using split_on_nonempty by blast
next
  case (Cons d ds)
  then show ?thesis by (simp add: month_index_def Let_def)
qed

lemma map_entry_invalid: "invalid_entry e \<Longrightarrow> map_entry vars e = Inr (None, vars)"
  by (simp add: map_entry_def)

lemma map_entry_valid:
  assumes "\<not> invalid_entry e" and "is_string (sales_date e)"
  shows "\<exists>r vars'. map_entry vars e = Inr (Some r, vars') \<and> emitted_from r e"
proof -
  from assms(2) obtain s where s: "sales_date e = JStr s"
    by (auto simp: is_string_def split: jsval.splits)
  obtain m where m: "month_index s = Inr m"
    using month_index_total by blast
  show ?thesis
    using assms(1) s m by (simp add: map_entry_def Let_def emitted_from_def)
qed

lemma filter_Boolean_Cons:
  "filter_Boolean (x # xs) = (case x of None \<Rightarrow> [] | Some r \<Rightarrow> [r]) @ filter_Boolean xs"
  by (simp add: filter_Boolean_def)

lemma filter_Boolean_Nil: "filter_Boolean [] = []"
  by (simp add: filter_Boolean_def)

lemma map_entries_ok:
  assumes "\<forall>e\<in>set data. \<not> invalid_entry e \<longrightarrow> is_string (sales_date e)"
  shows "\<exists>mapped vars'. map_entries vars data = Inr (mapped, vars') \<and>
           list_all2 emitted_from (filter_Boolean mapped) (filter (\<lambda>e. \<not> invalid_entry e) data)"
  using assms
proof (induction data arbitrary: vars)
  case Nil
  then show ?case by (simp add: filter_Boolean_Nil)
next
  case (Cons e es)
  show ?case
  proof (cases "invalid_entry e")
    case True
    from Cons.IH[of vars] Cons.prems obtain mapped vars' where
      "map_entries vars es = Inr (mapped, vars')"
      "list_all2 emitted_from (filter_Boolean mapped) (filter (\<lambda>e. \<not> invalid_entry e) es)"
      by auto
    with True show ?thesis
      by (simp add: map_entry_invalid filter_Boolean_Cons)
  next
    case False
    with Cons.prems have "is_string (sales_date e)" by simp
    from map_entry_valid[OF False this, of vars] obtain r v1 where
      r: "map_entry vars e = Inr (Some r, v1)" "emitted_from r e" by blast
    from Cons.IH[of v1] Cons.prems obtain mapped vars' where
      "map_entries v1 es = Inr (mapped, vars')"
      "list_all2 emitted_from (filter_Boolean mapped) (filter (\<lambda>e. \<not> invalid_entry e) es)"
      by auto
    with False r show ?thesis
      by (simp add: filter_Boolean_Cons)
  qed
qed

lemma processData_ok:
  assumes "\<forall>e\<in>set data. \<not> invalid_entry e \<longrightarrow> is_string (sales_date e)"
  shows "\<exists>recs pm. processData data = Inr (recs, pm) \<and>
           list_all2 emitted_from recs (filter (\<lambda>e. \<not> invalid_entry e) data)"
proof -
  from map_entries_ok[OF assms, of "([], 0)"] obtain mapped vars' where
    "map_entries ([], 0) data = Inr (mapped, vars')"
    "list_all2 emitted_from (filter_Boolean mapped) (filter (\<lambda>e. \<not> invalid_entry e) data)"
    by blast
  then show ?thesis by (simp add: processData_def)
qed

lemma map_entries_all_invalid:
  "\<forall>e\<in>set data. invalid_entry e \<Longrightarrow>
   map_entries vars data = Inr (replicate (length data) None, vars)"
  by (induction data) (simp_all add: map_entry_invalid)

lemma filter_Boolean_replicate_None: "filter_Boolean (replicate n None) = []"
  by (induction n) (simp_all add: filter_Boolean_def)

section \<open>The prediction loop\<close>

lemma predict_loop_unselected:
  "selectedProduct st = [] \<Longrightarrow> predict_loop mdl maxQ minQ st year month i acc = Inr acc"
proof (induction mdl maxQ minQ st year month i acc rule: predict_loop.induct)
  case (1 mdl maxQ minQ st year month i acc)
  then show ?case
    by (subst predict_loop.simps) simp
qed

lemma predict_loop_total:
  "selectedProduct st \<noteq> [] \<Longrightarrow>
   predict_loop (Inr \<circ> g) maxQ minQ st year month i acc =
     Inr (acc @ map (\<lambda>j. forecast_point maxQ minQ st year month j
                          (g (forecast_features (productMap st) (selectedProduct st)
                                (nextMonth month j))))
                 [i..<6])"
proof (induction "Inr \<circ> g :: model" maxQ minQ st year month i acc rule: predict_loop.induct)
  case (1 maxQ minQ st year month i acc)
  show ?case
  proof (cases "i < 6")
    case True
    then have "[i..<6] = i # [Suc i..<6]" by (simp add: upt_conv_Cons)
    with True 1 show ?thesis
      by (subst predict_loop.simps) simp
  next
    case False
    then show ?thesis by (subst predict_loop.simps) simp
  qed
qed

lemma predict_loop_error:
  "predict_loop mdl maxQ minQ st year month i acc = Inl err \<Longrightarrow>
   \<exists>j<6. mdl (forecast_features (productMap st) (selectedProduct st) (nextMonth month j)) = Inl err"
proof (induction mdl maxQ minQ st year month i acc rule: predict_loop.induct)
  case (1 mdl maxQ minQ st year month i acc)
  show ?case
  proof (cases "selectedProduct st = []")
    case True
    with "1.prems" show ?thesis by (simp add: predict_loop_unselected)
  next
    case sel: False
    show ?thesis
    proof (cases "i < 6")
      case False
      with "1.prems" show ?thesis by (subst (asm) predict_loop.simps) simp
    next
      case True
      show ?thesis
      proof (cases "mdl (forecast_features (productMap st) (selectedProduct st) (nextMonth month i))")
        case (Inl e')
        with True sel "1.prems" have "e' = err"
          by (subst (asm) predict_loop.simps) simp
        with Inl True show ?thesis by blast
      next
        case (Inr p)
        with True sel "1.prems" have
          "predict_loop mdl maxQ minQ st year month (Suc i)
             (acc @ [forecast_point maxQ minQ st year month i p]) = Inl err"
          by (subst (asm) predict_loop.simps) simp
        from "1.IH"(1)[OF True sel Inr this] show ?thesis .
      qed
    qed
  qed
qed

lemma predictSales_error:
  assumes "predictSales mdl maxQ minQ st = Inl err"
  shows "\<exists>j<6. mdl (forecast_features (productMap st) (selectedProduct st)
                     (nextMonth (element_at (start_parts (startDate st)) 1) j)) = Inl err"
proof -
  from assms have
    "predict_loop mdl maxQ minQ st (element_at (start_parts (startDate st)) 0)
       (element_at (start_parts (startDate st)) 1) 0 [] = Inl err"
    by (simp add: predictSales_def Let_def split: sum.splits)
  then show ?thesis by (rule predict_loop_error)
qed

section \<open>Evaluation of the prediction step\<close>

lemma upt_0_6: "[0..<6] = [0, 1, 2, 3, 4, 5]"
  by (simp add: upt_conv_Cons)

lemma predictSales_total:
  assumes "selectedProduct st \<noteq> []"
  shows "predictSales (Inr \<circ> g) maxQ minQ st =
     Inr (st\<lparr>predictions :=
            map (\<lambda>i. forecast_point maxQ minQ st
                        (element_at (start_parts (startDate st)) 0)
                        (element_at (start_parts (startDate st)) 1) i
                        (g (forecast_features (productMap st) (selectedProduct st)
                              (nextMonth (element_at (start_parts (startDate st)) 1) i))))
              [0..<6]\<rparr>)"
  by (simp add: predictSales_def Let_def predict_loop_total[OF assms])

lemma get_property_absent:
  assumes "k \<notin> fst ` set pm"
  shows "get_property pm k = (if k \<in> set Object_prototype_keys then Some (Inherited k) else None)"
proof -
  from assms have "map_of pm k = None" by (simp add: map_of_eq_None_iff)
  then show ?thesis by (simp add: get_property_def)
qed

lemmas predict_defs =
  start_parts_def element_at_def nextMonth_def nextYear_def monthNames_at_def monthNames_def
  forecast_features_def forecast_point_def denormalize_q_def predict_phase_def
  js_sub_def trunc_real_def upt_0_6 js_number_small

lemma nextMonth_Undefined: "nextMonth Undefined i = NaN"
  by (simp add: nextMonth_def js_sub_def)

lemma nextYear_Undefined: "nextYear y Undefined i = NaN"
  by (simp add: nextYear_def js_sub_def js_add_NaN_right)

lemma month_absent_without_separator:
  "CHR ''-'' \<notin> set s \<Longrightarrow> element_at (start_parts s) 1 = Undefined"
  by (simp add: start_parts_def split_on_no_separator element_at_def)

section \<open>The two phases for every month\<close>

text \<open>
  For a record of the year \<open>y\<close> from 0 to below \<open>2^53\<close> and the month \<open>m\<close> from 1 to
  12, the training phase is \<open>m mod 12\<close>, and the phase of the forecast month \<open>m\<close> is
  \<open>m - 1\<close>: the two differ for every month.
\<close>

lemma month_index_of_int:
  assumes "0 \<le> y" and "y < 2 ^ 53" and "1 \<le> m" and "m \<le> 12"
  shows "js_add (js_mul (Fin (of_int y)) (Fin 12)) (Fin (of_int m)) = Fin (of_int (y * 12 + m))"
proof -
  have a: "js_number (of_int (y * 12)) = Fin (of_int (y * 12))"
    by (rule js_number_of_int) (use assms in simp)
  have b: "js_number (of_int (y * 12 + m)) = Fin (of_int (y * 12 + m))"
    by (rule js_number_of_int) (use assms in simp)
  have "js_mul (Fin (of_int y)) (Fin 12) = Fin (of_int (y * 12))"
    using a by simp
  then show ?thesis using b by simp
qed

lemma training_phase_of_month_index:
  assumes "0 \<le> y" and "y < 2 ^ 53" and "1 \<le> m" and "m \<le> 12"
  shows "train_phase \<lparr>d_month = js_add (js_mul (Fin (of_int y)) (Fin 12)) (Fin (of_int m)),
                      d_product_description = c, d_quantity_sold = q\<rparr>
           = Fin (of_int (m mod 12))"
proof -
  have "train_phase \<lparr>d_month = js_add (js_mul (Fin (of_int y)) (Fin 12)) (Fin (of_int m)),
                      d_product_description = c, d_quantity_sold = q\<rparr>
          = js_mod (Fin (of_int (y * 12 + m))) (Fin 12)"
    by (simp only: train_phase_def datum.select_convs month_index_of_int[OF assms])
  also have "\<dots> = Fin (of_int ((y * 12 + m) mod 12))"
    by (rule js_mod_12_of_int) (use assms in linarith)
  also have "(y * 12 + m) mod 12 = m mod 12"
    by simp
  finally show ?thesis .
qed

lemma phases_differ_for_every_month:
  assumes "0 \<le> y" and "y < 2 ^ 53" and "1 \<le> m" and "m \<le> 12"
  shows "train_phase \<lparr>d_month = js_add (js_mul (Fin (of_int y)) (Fin 12)) (Fin (of_int m)),
                      d_product_description = c, d_quantity_sold = q\<rparr>
           \<noteq> predict_phase (Fin (of_int m))"
proof -
  have "js_number (of_int (m - 1)) = Fin (of_int (m - 1))"
    by (rule js_number_of_int) (use assms in simp)
  then have p: "predict_phase (Fin (of_int m)) = Fin (of_int (m - 1))"
    by (simp add: predict_phase_def js_sub_Fin)
  have ne: "m mod 12 \<noteq> m - 1" using assms(3,4) by presburger
  show ?thesis
    by (simp only: training_phase_of_month_index[OF assms] p jsnum.inject of_int_eq_iff ne
          not_False_eq_True)
qed

section \<open>C1: the phase of a calendar month in training and in prediction\<close>

text \<open>
  C1 says that the training path and the prediction path feed the same phase to the
  sine and the cosine for the same calendar month. The code does not: for a record of
  January 2023 the month index is 24277 and the training phase \<^verbatim>\<open>d.month % 12\<close> is
  1, so the training features are \<open>(sin (pi/6), cos (pi/6), code)\<close>; for the forecast
  month January (start date \<^verbatim>\<open>2023-01\<close>, first iteration) the phase
  \<^verbatim>\<open>nextMonth - 1\<close> is 0 and the features are \<open>(0, 1, code)\<close>. The theorem
  evaluates both paths at this input.
\<close>

theorem january_phase_differs:
  "processData
     [\<lparr>sales_date = JStr ''1/15/2023'', product_description = ''Widget'',
       quantity_sold = JNum (Fin 10)\<rparr>]
   = Inr ([\<lparr>d_month = Fin 24277, d_product_description = Some (Code 0),
            d_quantity_sold = JNum (Fin 10)\<rparr>], [(''Widget'', 0)])
   \<and> train_phase \<lparr>d_month = Fin 24277, d_product_description = Some (Code 0),
                   d_quantity_sold = JNum (Fin 10)\<rparr> = Fin 1
   \<and> training_features \<lparr>d_month = Fin 24277, d_product_description = Some (Code 0),
                   d_quantity_sold = JNum (Fin 10)\<rparr>
       = (Fin (1 / 2), Fin (sqrt 3 / 2), Some (Code 0))
   \<and> nextMonth (element_at (start_parts ''2023-01'') 1) 0 = Fin 1
   \<and> predict_phase (Fin 1) = Fin 0
   \<and> forecast_features [(''Widget'', 0)] ''Widget'' (Fin 1) = (Fin 0, Fin 1, Some (Code 0))"
  by (simp add: preprocess_defs number_defs predict_defs train_phase_def training_features_def
        cyclic_angle_Fin sin_30 cos_30)

section \<open>C2: a selected product that the product map lacks\<close>

text \<open>
  C2 as the code has it: \<open>predictSales\<close> has no test for an unknown product. When the
  selected product is not empty and not a key of the product map, the property read of
  line 142 gives \<^verbatim>\<open>undefined\<close> (or the inherited member, when the name is one of
  \<^verbatim>\<open>Object.prototype\<close>), never a product code. That value is the product feature
  of the model's input in each of the six iterations, and six forecast points for the
  selected product are returned when the model returns a value each time. The only
  failure is one the model raises on such an input.
\<close>

theorem absent_product_is_passed_to_the_model:
  assumes "selectedProduct st \<noteq> []"
    and "selectedProduct st \<notin> fst ` set (productMap st)"
  shows "get_property (productMap st) (selectedProduct st)
           = (if selectedProduct st \<in> set Object_prototype_keys
              then Some (Inherited (selectedProduct st)) else None)
         \<and> predictSales (Inr \<circ> g) maxQ minQ st =
             Inr (st\<lparr>predictions :=
               map (\<lambda>i. forecast_point maxQ minQ st
                        (element_at (start_parts (startDate st)) 0)
                        (element_at (start_parts (startDate st)) 1) i
                        (g (forecast_features (productMap st) (selectedProduct st)
                              (nextMonth (element_at (start_parts (startDate st)) 1) i))))
                 [0..<6]\<rparr>)
         \<and> (\<forall>mdl err. predictSales mdl maxQ minQ st = Inl err \<longrightarrow>
               (\<exists>s c. mdl (s, c, get_property (productMap st) (selectedProduct st)) = Inl err))"
proof (intro conjI allI impI)
  show "get_property (productMap st) (selectedProduct st)
           = (if selectedProduct st \<in> set Object_prototype_keys
              then Some (Inherited (selectedProduct st)) else None)"
    by (rule get_property_absent[OF assms(2)])
  show "predictSales (Inr \<circ> g) maxQ minQ st =
             Inr (st\<lparr>predictions :=
               map (\<lambda>i. forecast_point maxQ minQ st
                        (element_at (start_parts (startDate st)) 0)
                        (element_at (start_parts (startDate st)) 1) i
                        (g (forecast_features (productMap st) (selectedProduct st)
                              (nextMonth (element_at (start_parts (startDate st)) 1) i))))
                 [0..<6]\<rparr>)"
    by (rule predictSales_total[OF assms(1)])
next
  fix mdl err
  assume "predictSales mdl maxQ minQ st = Inl err"
  from predictSales_error[OF this]
  show "\<exists>s c. mdl (s, c, get_property (productMap st) (selectedProduct st)) = Inl err"
    by (auto simp: forecast_features_def)
qed

theorem absent_product_is_passed_to_the_model_witness:
  "\<exists>ps. predictSales (Inr \<circ> (\<lambda>f. case f of (s, c, None) \<Rightarrow> Fin (1 / 2) | (s, c, Some p) \<Rightarrow> Fin 0))
      (Fin 20) (Fin 10)
      \<lparr>productMap = [(''Widget'', 0)], startDate = ''2023-04'',
       selectedProduct = ''Gadget'', predictions = []\<rparr>
    = Inr \<lparr>productMap = [(''Widget'', 0)], startDate = ''2023-04'',
       selectedProduct = ''Gadget'', predictions = ps\<rparr>
    \<and> map f_quantity_sold ps = [Fin 15, Fin 15, Fin 15, Fin 15, Fin 15, Fin 15]"
  using absent_product_is_passed_to_the_model
    [of "\<lparr>productMap = [(''Widget'', 0)], startDate = ''2023-04'',
       selectedProduct = ''Gadget'', predictions = []\<rparr>"
       "\<lambda>f. case f of (s, c, None) \<Rightarrow> Fin (1 / 2) | (s, c, Some p) \<Rightarrow> Fin 0"
       "Fin 20" "Fin 10"]
  by (simp add: Object_prototype_keys_def forecast_features_def forecast_point_def
        denormalize_q_def js_sub_def upt_0_6 comp_def js_number_small get_property_def)

text \<open>
  C2 as stated fails: a run whose selected product \<^verbatim>\<open>Gadget\<close> is absent from the
  product map built from the data (which holds \<^verbatim>\<open>Widget\<close> only) raises no error and
  returns six forecast points. The model here answers 1/2 exactly when the product
  feature is \<^verbatim>\<open>undefined\<close>, and 15 is 1/2 denormalized.
\<close>

theorem unknown_product_run_returns_predictions:
  "handleTrainModel
     (\<lambda>xs ys. Inr (Inr \<circ> (\<lambda>f. case f of (s, c, None) \<Rightarrow> Fin (1 / 2) | (s, c, Some p) \<Rightarrow> Fin 0)))
     \<lparr>productMap = [(''Widget'', 0)], startDate = ''2023-04'', selectedProduct = ''Gadget'',
      predictions = []\<rparr>
     [\<lparr>sales_date = JStr ''1/1/2023'', product_description = ''Widget'',
       quantity_sold = JNum (Fin 10)\<rparr>,
      \<lparr>sales_date = JStr ''2/1/2023'', product_description = ''Widget'',
       quantity_sold = JNum (Fin 20)\<rparr>]
   = Inr \<lparr>productMap = [(''Widget'', 0)], startDate = ''2023-04'', selectedProduct = ''Gadget'',
      predictions =
        [\<lparr>f_sales_date = (Some ''April'', Fin 2023), f_product_description = ''Gadget'',
          f_quantity_sold = Fin 15\<rparr>,
         \<lparr>f_sales_date = (Some ''May'', Fin 2023), f_product_description = ''Gadget'',
          f_quantity_sold = Fin 15\<rparr>,
         \<lparr>f_sales_date = (Some ''June'', Fin 2023), f_product_description = ''Gadget'',
          f_quantity_sold = Fin 15\<rparr>,
         \<lparr>f_sales_date = (Some ''July'', Fin 2023), f_product_description = ''Gadget'',
          f_quantity_sold = Fin 15\<rparr>,
         \<lparr>f_sales_date = (Some ''August'', Fin 2023), f_product_description = ''Gadget'',
          f_quantity_sold = Fin 15\<rparr>,
         \<lparr>f_sales_date = (Some ''September'', Fin 2023), f_product_description = ''Gadget'',
          f_quantity_sold = Fin 15\<rparr>]\<rparr>"
proof -
  have pre: "preprocessData
     [\<lparr>sales_date = JStr ''1/1/2023'', product_description = ''Widget'',
       quantity_sold = JNum (Fin 10)\<rparr>,
      \<lparr>sales_date = JStr ''2/1/2023'', product_description = ''Widget'',
       quantity_sold = JNum (Fin 20)\<rparr>]
    = Inr (\<lparr>normalizedData =
              [\<lparr>d_month = Fin 24277, d_product_description = Some (Code 0),
                d_quantity_sold = JNum (Fin 0)\<rparr>,
               \<lparr>d_month = Fin 24278, d_product_description = Some (Code 0),
                d_quantity_sold = JNum (Fin 1)\<rparr>],
            maxQuantity = Fin 20, minQuantity = Fin 10\<rparr>,
           [(''Widget'', 0)])"
    by (simp add: preprocess_defs number_defs)
  show ?thesis
    unfolding handleTrainModel_def pre
    by (simp add: trainModel_def predictSales_total get_property_def Object_prototype_keys_def
          predict_defs number_defs)
qed

section \<open>The scaling of finite quantities\<close>

text \<open>
  When the entries that pass the validation have a string date and finite quantities
  \<open>qs\<close> (not empty) whose range \<open>Max - Min\<close> does not overflow, \<open>preprocessData\<close>
  succeeds with the maximum and the minimum of \<open>qs\<close>, and the normalized quantity of
  each record is \<open>(q - Min) / range\<close>.
\<close>

lemma list_all2_map_eq:
  assumes "list_all2 P xs ys" and "\<And>x y. P x y \<Longrightarrow> f x = g y"
  shows "map f xs = map g ys"
  using assms by (induction rule: list_all2_induct) simp_all

lemma preprocessData_finite:
  assumes dates: "\<forall>e\<in>set data. \<not> invalid_entry e \<longrightarrow> is_string (sales_date e)"
    and qs: "map (\<lambda>e. ToNumber (quantity_sold e)) (filter (\<lambda>e. \<not> invalid_entry e) data)
               = map Fin qs"
    and ne: "qs \<noteq> []"
    and rng: "finite_number (Max (set qs) - Min (set qs))"
  shows "\<exists>prep pm. preprocessData data = Inr (prep, pm)
           \<and> maxQuantity prep = Fin (Max (set qs))
           \<and> minQuantity prep = Fin (Min (set qs))
           \<and> map d_quantity_sold (normalizedData prep)
               = map (\<lambda>q. JNum (Fin ((q - Min (set qs))
                                     / (if Max (set qs) = Min (set qs) then 1
                                        else Max (set qs) - Min (set qs))))) qs"
proof -
  define valid where "valid = filter (\<lambda>e. \<not> invalid_entry e) data"
  let ?mx = "Max (set qs)" and ?mn = "Min (set qs)"
  let ?rng = "quantity_range (Fin ?mx) (Fin ?mn)"
  from processData_ok[OF dates] obtain recs pm where
    ok: "processData data = Inr (recs, pm)"
    and all2: "list_all2 emitted_from recs valid"
    unfolding valid_def by blast
  have quant: "map d_quantity_sold recs = map quantity_sold valid"
    using all2 by (rule list_all2_map_eq) (simp add: emitted_from_def)
  have "map (ToNumber \<circ> d_quantity_sold) recs = map ToNumber (map d_quantity_sold recs)"
    by simp
  also have "\<dots> = map ToNumber (map quantity_sold valid)"
    by (simp only: quant)
  also have "\<dots> = map (\<lambda>e. ToNumber (quantity_sold e)) valid"
    by (simp add: comp_def)
  also have "\<dots> = map Fin qs"
    using qs by (simp only: valid_def)
  finally have nums: "map (ToNumber \<circ> d_quantity_sold) recs = map Fin qs" .
  let ?prep = "\<lparr>normalizedData =
                  map (\<lambda>d. d\<lparr>d_quantity_sold :=
                         JNum (normalize_q (Fin ?mn) ?rng (d_quantity_sold d))\<rparr>) recs,
                maxQuantity = Fin ?mx, minQuantity = Fin ?mn\<rparr>"
  have pre: "preprocessData data = Inr (?prep, pm)"
    by (simp add: preprocessData_def ok nums Let_def Math_max_Fin[OF ne] Math_min_Fin[OF ne])
  have one: "normalize_q (Fin ?mn) ?rng (JNum (Fin q))
               = Fin ((q - ?mn) / (if ?mx = ?mn then 1 else ?mx - ?mn))"
    if "q \<in> set qs" for q
  proof -
    from that have "?mn \<le> q" "q \<le> ?mx" by simp_all
    then show ?thesis by (rule normalize_q_Fin[OF rng])
  qed
  have "map d_quantity_sold (normalizedData ?prep)
          = map (\<lambda>n. JNum (normalize_q (Fin ?mn) ?rng (JNum n)))
              (map (ToNumber \<circ> d_quantity_sold) recs)"
    by (simp add: normalize_q_def comp_def)
  also have "\<dots> = map (\<lambda>n. JNum (normalize_q (Fin ?mn) ?rng (JNum n))) (map Fin qs)"
    by (simp only: nums)
  also have "\<dots> = map (\<lambda>q. JNum (normalize_q (Fin ?mn) ?rng (JNum (Fin q)))) qs"
    by (simp add: comp_def)
  also have "\<dots> = map (\<lambda>q. JNum (Fin ((q - ?mn) / (if ?mx = ?mn then 1 else ?mx - ?mn)))) qs"
    using one by simp
  finally have "map d_quantity_sold (normalizedData ?prep)
          = map (\<lambda>q. JNum (Fin ((q - ?mn) / (if ?mx = ?mn then 1 else ?mx - ?mn)))) qs" .
  moreover have "maxQuantity ?prep = Fin ?mx" "minQuantity ?prep = Fin ?mn" by simp_all
  ultimately show ?thesis using pre by blast
qed

text \<open>With a model that answers the same number for every input, line 150 gives every
  forecast point the denormalized number.\<close>

lemma predictSales_constant_model:
  assumes "selectedProduct st \<noteq> []"
  shows "\<exists>st'. predictSales (Inr \<circ> (\<lambda>f. n)) maxQ minQ st = Inr st'
           \<and> map f_quantity_sold (predictions st') = replicate 6 (denormalize_q maxQ minQ n)"
  unfolding predictSales_total[OF assms]
  by (simp add: forecast_point_def comp_def map_replicate_const)

section \<open>C3: the range of the scaling\<close>

text \<open>
  C3 as the code has it. Let the entries that pass the validation have string dates and
  finite quantities \<open>qs\<close> (not empty) with maximum \<open>mx\<close> and minimum \<open>mn\<close>, whose
  difference does not overflow. Then \<open>preprocessData\<close> returns \<open>mx\<close> and \<open>mn\<close>; the range
  of line 77 is \<open>r = mx - mn\<close> when that is not zero and 1 otherwise; each training
  quantity \<open>q\<close> is normalized to \<open>(q - mn) / r\<close>; \<open>r\<close> is the specification's
  \<open>max(mx - mn, 1)\<close> exactly when \<open>mx = mn\<close> or \<open>mx - mn \<ge> 1\<close>; and when \<open>mx \<noteq> mn\<close>,
  \<open>predictSales\<close> with a product selected denormalizes a prediction \<open>n\<close> to
  \<open>n * r + mn\<close>, for every \<open>n\<close> for which the product and the sum do not overflow.
\<close>

theorem scaler_range_guard:
  assumes "\<forall>e\<in>set data. \<not> invalid_entry e \<longrightarrow> is_string (sales_date e)"
    and "map (\<lambda>e. ToNumber (quantity_sold e)) (filter (\<lambda>e. \<not> invalid_entry e) data)
           = map Fin qs"
    and "qs \<noteq> []"
    and "finite_number (Max (set qs) - Min (set qs))"
    and "selectedProduct st \<noteq> []"
  shows "let mx = Max (set qs); mn = Min (set qs); r = (if mx = mn then 1 else mx - mn) in
         \<exists>prep pm. preprocessData data = Inr (prep, pm)
           \<and> maxQuantity prep = Fin mx
           \<and> minQuantity prep = Fin mn
           \<and> quantity_range (maxQuantity prep) (minQuantity prep) = Fin r
           \<and> map d_quantity_sold (normalizedData prep) = map (\<lambda>q. JNum (Fin ((q - mn) / r))) qs
           \<and> (r = spec_range mx mn \<longleftrightarrow> mx = mn \<or> 1 \<le> mx - mn)
           \<and> (mx \<noteq> mn \<longrightarrow>
                (\<forall>n. finite_number (n * r) \<and> finite_number (n * r + mn) \<longrightarrow>
                   (\<exists>st'. predictSales (Inr \<circ> (\<lambda>f. Fin n)) (maxQuantity prep) (minQuantity prep) st
                            = Inr st'
                        \<and> map f_quantity_sold (predictions st') = replicate 6 (Fin (n * r + mn)))))"
proof -
  let ?mx = "Max (set qs)" and ?mn = "Min (set qs)"
  let ?r = "if ?mx = ?mn then 1 else ?mx - ?mn"
  from preprocessData_finite[OF assms(1-4)] obtain prep pm where
    pre: "preprocessData data = Inr (prep, pm)"
    and mx: "maxQuantity prep = Fin ?mx"
    and mn: "minQuantity prep = Fin ?mn"
    and norm: "map d_quantity_sold (normalizedData prep)
                 = map (\<lambda>q. JNum (Fin ((q - ?mn) / ?r))) qs"
    by blast
  have range: "quantity_range (maxQuantity prep) (minQuantity prep) = Fin ?r"
    by (simp only: mx mn quantity_range_Fin[OF assms(4)])
  have "?mn \<le> ?mx" using assms(3) by simp
  then have spec: "?r = spec_range ?mx ?mn \<longleftrightarrow> ?mx = ?mn \<or> 1 \<le> ?mx - ?mn"
    by (auto simp: spec_range_def max_def)
  have den: "\<exists>st'. predictSales (Inr \<circ> (\<lambda>f. Fin n)) (maxQuantity prep) (minQuantity prep) st
                     = Inr st'
                 \<and> map f_quantity_sold (predictions st') = replicate 6 (Fin (n * ?r + ?mn))"
    if "?mx \<noteq> ?mn" and "finite_number (n * ?r)" and "finite_number (n * ?r + ?mn)" for n
  proof -
    from that have "denormalize_q (Fin ?mx) (Fin ?mn) (Fin n) = Fin (n * ?r + ?mn)"
      using denormalize_q_Fin[OF assms(4), of n] by simp
    then show ?thesis
      using predictSales_constant_model[OF assms(5), of "Fin n" "Fin ?mx" "Fin ?mn"]
      by (simp only: mx mn)
  qed
  show ?thesis
    unfolding Let_def using pre mx mn range norm spec den by blast
qed

theorem scaler_range_guard_witness:
  "\<exists>prep pm.
     preprocessData
       [\<lparr>sales_date = JStr ''1/1/2023'', product_description = ''Widget'',
         quantity_sold = JNum (Fin 10)\<rparr>,
        \<lparr>sales_date = JStr ''2/1/2023'', product_description = ''Widget'',
         quantity_sold = JNum (Fin 20)\<rparr>,
        \<lparr>sales_date = JStr ''3/1/2023'', product_description = ''Widget'',
         quantity_sold = JNum (Fin 15)\<rparr>] = Inr (prep, pm)
     \<and> maxQuantity prep = Fin 20 \<and> minQuantity prep = Fin 10
     \<and> quantity_range (maxQuantity prep) (minQuantity prep) = Fin 10
     \<and> map d_quantity_sold (normalizedData prep) = [JNum (Fin 0), JNum (Fin 1), JNum (Fin (1 / 2))]
     \<and> (\<exists>st'. predictSales (Inr \<circ> (\<lambda>f. Fin (3 / 2))) (maxQuantity prep) (minQuantity prep)
                  \<lparr>productMap = [(''Widget'', 0)], startDate = ''2023-04'',
                   selectedProduct = ''Widget'', predictions = []\<rparr> = Inr st'
              \<and> map f_quantity_sold (predictions st') = replicate 6 (Fin 25))"
proof -
  have lim: "finite_number 10" "finite_number 15" "finite_number 25"
    by (simp_all add: finite_number_small)
  from scaler_range_guard
    [of "[\<lparr>sales_date = JStr ''1/1/2023'', product_description = ''Widget'',
         quantity_sold = JNum (Fin 10)\<rparr>,
        \<lparr>sales_date = JStr ''2/1/2023'', product_description = ''Widget'',
         quantity_sold = JNum (Fin 20)\<rparr>,
        \<lparr>sales_date = JStr ''3/1/2023'', product_description = ''Widget'',
         quantity_sold = JNum (Fin 15)\<rparr>]" "[10, 20, 15]"
        "\<lparr>productMap = [(''Widget'', 0)], startDate = ''2023-04'',
                   selectedProduct = ''Widget'', predictions = []\<rparr>"]
  obtain prep pm where
    pre: "preprocessData
       [\<lparr>sales_date = JStr ''1/1/2023'', product_description = ''Widget'',
         quantity_sold = JNum (Fin 10)\<rparr>,
        \<lparr>sales_date = JStr ''2/1/2023'', product_description = ''Widget'',
         quantity_sold = JNum (Fin 20)\<rparr>,
        \<lparr>sales_date = JStr ''3/1/2023'', product_description = ''Widget'',
         quantity_sold = JNum (Fin 15)\<rparr>] = Inr (prep, pm)"
    and rest: "maxQuantity prep = Fin 20" "minQuantity prep = Fin 10"
      "quantity_range (maxQuantity prep) (minQuantity prep) = Fin 10"
      "map d_quantity_sold (normalizedData prep) = [JNum (Fin 0), JNum (Fin 1), JNum (Fin (1 / 2))]"
    and den: "\<forall>n. finite_number (n * 10) \<and> finite_number (n * 10 + 10) \<longrightarrow>
                   (\<exists>st'. predictSales (Inr \<circ> (\<lambda>f. Fin n)) (maxQuantity prep) (minQuantity prep)
                            \<lparr>productMap = [(''Widget'', 0)], startDate = ''2023-04'',
                             selectedProduct = ''Widget'', predictions = []\<rparr>
                            = Inr st'
                        \<and> map f_quantity_sold (predictions st') = replicate 6 (Fin (n * 10 + 10)))"
    using lim
    by (auto simp: Let_def invalid_entry_def isNaN_def is_string_def num_truthy_def)
  from den[rule_format, of "3 / 2"] lim have den2:
    "\<exists>st'. predictSales (Inr \<circ> (\<lambda>f. Fin (3 / 2))) (maxQuantity prep) (minQuantity prep)
                  \<lparr>productMap = [(''Widget'', 0)], startDate = ''2023-04'',
                   selectedProduct = ''Widget'', predictions = []\<rparr> = Inr st'
              \<and> map f_quantity_sold (predictions st') = replicate 6 (Fin 25)"
    by simp
  show ?thesis
    by (rule exI[of _ prep], rule exI[of _ pm], intro conjI) (rule pre rest den2)+
qed

text \<open>
  C3 as stated fails in both directions. With the training quantities 5 and 5,
  \<open>preprocessData\<close> returns the maximum 5 and the minimum 5, and line 150 denormalizes
  1/2 to 5 where the specification's formula gives 11/2: it multiplies by
  \<open>max - min = 0\<close>, not by the guarded range. With the training quantities 1/5 and 7/10
  the range of line 77 is 1/2 where \<open>max(max - min, 1)\<close> is 1, so 7/10 is normalized to
  1 and not to 1/2.
\<close>

theorem scaler_differs_from_specification:
  "preprocessData
     [\<lparr>sales_date = JStr ''1/1/2023'', product_description = ''Widget'',
       quantity_sold = JNum (Fin 5)\<rparr>,
      \<lparr>sales_date = JStr ''2/1/2023'', product_description = ''Widget'',
       quantity_sold = JNum (Fin 5)\<rparr>]
   = Inr (\<lparr>normalizedData =
             [\<lparr>d_month = Fin 24277, d_product_description = Some (Code 0),
               d_quantity_sold = JNum (Fin 0)\<rparr>,
              \<lparr>d_month = Fin 24278, d_product_description = Some (Code 0),
               d_quantity_sold = JNum (Fin 0)\<rparr>],
           maxQuantity = Fin 5, minQuantity = Fin 5\<rparr>, [(''Widget'', 0)])
   \<and> denormalize_q (Fin 5) (Fin 5) (Fin (1 / 2)) = Fin 5
   \<and> spec_denormalize 5 5 (1 / 2) = 11 / 2
   \<and> preprocessData
     [\<lparr>sales_date = JStr ''1/1/2023'', product_description = ''Widget'',
       quantity_sold = JNum (Fin (1 / 5))\<rparr>,
      \<lparr>sales_date = JStr ''2/1/2023'', product_description = ''Widget'',
       quantity_sold = JNum (Fin (7 / 10))\<rparr>]
   = Inr (\<lparr>normalizedData =
             [\<lparr>d_month = Fin 24277, d_product_description = Some (Code 0),
               d_quantity_sold = JNum (Fin 0)\<rparr>,
              \<lparr>d_month = Fin 24278, d_product_description = Some (Code 0),
               d_quantity_sold = JNum (Fin 1)\<rparr>],
           maxQuantity = Fin (7 / 10), minQuantity = Fin (1 / 5)\<rparr>, [(''Widget'', 0)])
   \<and> quantity_range (Fin (7 / 10)) (Fin (1 / 5)) = Fin (1 / 2)
   \<and> spec_range (7 / 10) (1 / 5) = 1
   \<and> spec_normalize (7 / 10) (1 / 5) (7 / 10) = 1 / 2"
  by (simp add: preprocess_defs number_defs denormalize_q_def Let_def
        spec_range_def spec_normalize_def spec_denormalize_def)

section \<open>C4: the round trip of the scaling\<close>




section \<open>C5: what the validation keeps\<close>

text \<open>
  C5 as the code has it: when every entry that passes the test of line 51 has a string
  as its \<^verbatim>\<open>sales_date\<close>, the processing does not fail, and the processed records are,
  in order, the images of exactly the entries that pass the test (a truthy
  \<^verbatim>\<open>sales_date\<close> and a \<^verbatim>\<open>quantity_sold\<close> that does not convert to NaN): each
  carries the entry's quantity unchanged, which is not NaN, and the month index
  \<open>year * 12 + month\<close> read from the first and third field of the date. Every entry
  with an absent or empty \<^verbatim>\<open>sales_date\<close> or a NaN quantity is dropped.
\<close>

theorem validation_keeps_what_passes_line_51:
  assumes "\<forall>e\<in>set data. \<not> invalid_entry e \<longrightarrow> is_string (sales_date e)"
  shows "\<exists>recs pm. processData data = Inr (recs, pm)
           \<and> list_all2 emitted_from recs (filter (\<lambda>e. \<not> invalid_entry e) data)
           \<and> (\<forall>r\<in>set recs. ToNumber (d_quantity_sold r) \<noteq> NaN)"
proof -
  from processData_ok[OF assms] obtain recs pm where
    ok: "processData data = Inr (recs, pm)"
    and all2: "list_all2 emitted_from recs (filter (\<lambda>e. \<not> invalid_entry e) data)"
    by blast
  define valid where "valid = filter (\<lambda>e. \<not> invalid_entry e) data"
  have len: "length recs = length valid"
    using all2 unfolding valid_def by (rule list_all2_lengthD)
  have "ToNumber (d_quantity_sold r) \<noteq> NaN" if "r \<in> set recs" for r
  proof -
    from that obtain k where k: "k < length recs" "recs ! k = r"
      by (auto simp: in_set_conv_nth)
    from all2 k have em: "emitted_from r (valid ! k)"
      unfolding valid_def by (auto dest: list_all2_nthD)
    from k len have "valid ! k \<in> set valid" by simp
    then have "\<not> invalid_entry (valid ! k)" by (simp add: valid_def)
    then have "ToNumber (quantity_sold (valid ! k)) \<noteq> NaN"
      by (simp add: invalid_entry_def isNaN_def)
    with em show ?thesis by (simp add: emitted_from_def)
  qed
  with ok all2 show ?thesis by blast
qed

theorem validation_keeps_what_passes_line_51_witness:
  "\<exists>recs pm.
     processData
       [\<lparr>sales_date = JStr ''1/5/2023 10:30'', product_description = ''Widget'',
         quantity_sold = JNum (Fin 4)\<rparr>,
        \<lparr>sales_date = Null, product_description = ''Widget'', quantity_sold = JNum (Fin 9)\<rparr>,
        \<lparr>sales_date = JNum (Fin 7), product_description = ''Gadget'',
         quantity_sold = JStr ''many''\<rparr>,
        \<lparr>sales_date = JStr ''2/7/2023'', product_description = ''Gadget'',
         quantity_sold = JNum (Fin 6)\<rparr>] = Inr (recs, pm)
     \<and> list_all2 emitted_from recs
          [\<lparr>sales_date = JStr ''1/5/2023 10:30'', product_description = ''Widget'',
            quantity_sold = JNum (Fin 4)\<rparr>,
           \<lparr>sales_date = JStr ''2/7/2023'', product_description = ''Gadget'',
            quantity_sold = JNum (Fin 6)\<rparr>]
     \<and> (\<forall>r\<in>set recs. ToNumber (d_quantity_sold r) \<noteq> NaN)"
  using validation_keeps_what_passes_line_51
    [of "[\<lparr>sales_date = JStr ''1/5/2023 10:30'', product_description = ''Widget'',
         quantity_sold = JNum (Fin 4)\<rparr>,
        \<lparr>sales_date = Null, product_description = ''Widget'', quantity_sold = JNum (Fin 9)\<rparr>,
        \<lparr>sales_date = JNum (Fin 7), product_description = ''Gadget'',
         quantity_sold = JStr ''many''\<rparr>,
        \<lparr>sales_date = JStr ''2/7/2023'', product_description = ''Gadget'',
         quantity_sold = JNum (Fin 6)\<rparr>]"]
  by (simp add: invalid_entry_def isNaN_def is_string_def num_truthy_def number_defs)

text \<open>
  C5 as stated fails: a negative quantity and an infinite quantity pass the test of line
  51, and a date without \<^verbatim>\<open>/\<close> gives the month index NaN. Both records are emitted
  and break the invariant of a clean record.
\<close>

theorem validation_emits_unclean_records:
  "processData
     [\<lparr>sales_date = JStr ''1/5/2023'', product_description = ''Widget'',
       quantity_sold = JNum (Fin (- 3))\<rparr>,
      \<lparr>sales_date = JStr ''2023-01-05'', product_description = ''Widget'',
       quantity_sold = JNum PInf\<rparr>]
   = Inr ([\<lparr>d_month = Fin 24277, d_product_description = Some (Code 0),
            d_quantity_sold = JNum (Fin (- 3))\<rparr>,
           \<lparr>d_month = NaN, d_product_description = Some (Code 0),
            d_quantity_sold = JNum PInf\<rparr>],
          [(''Widget'', 0)])
   \<and> \<not> CleanRecord_invariant \<lparr>d_month = Fin 24277, d_product_description = Some (Code 0),
            d_quantity_sold = JNum (Fin (- 3))\<rparr>
   \<and> \<not> CleanRecord_invariant \<lparr>d_month = NaN, d_product_description = Some (Code 0),
            d_quantity_sold = JNum PInf\<rparr>"
  by (simp add: preprocess_defs number_defs CleanRecord_invariant_def)

section \<open>C6: an empty training set\<close>

text \<open>
  C6 as the code has it: when no entry passes the validation, \<open>preprocessData\<close> raises
  no error and returns an empty list of normalized data with \<^verbatim>\<open>maxQuantity\<close>
  \<^verbatim>\<open>-Infinity\<close> and \<^verbatim>\<open>minQuantity\<close> \<^verbatim>\<open>Infinity\<close>; the run hands the trainer empty
  inputs and fails only if the trainer or the model does, with their error.
\<close>

theorem empty_training_set_is_not_rejected:
  assumes "\<forall>e\<in>set data. invalid_entry e"
  shows "preprocessData data
           = Inr (\<lparr>normalizedData = [], maxQuantity = NInf, minQuantity = PInf\<rparr>, [])
         \<and> handleTrainModel fit st data
           = (case fit [] [] of
                Inl err \<Rightarrow> Inl err
              | Inr mdl \<Rightarrow>
                  (case predictSales mdl NInf PInf st of
                     Inl err \<Rightarrow> Inl err
                   | Inr st' \<Rightarrow> Inr (st'\<lparr>productMap := []\<rparr>)))"
proof -
  have p: "processData data = Inr ([], [])"
    by (simp add: processData_def map_entries_all_invalid[OF assms]
          filter_Boolean_replicate_None)
  have pp: "preprocessData data
           = Inr (\<lparr>normalizedData = [], maxQuantity = NInf, minQuantity = PInf\<rparr>, [])"
    by (simp add: preprocessData_def p Math_max_def Math_min_def)
  show ?thesis
    by (simp add: pp handleTrainModel_def trainModel_def split: sum.split)
qed

theorem empty_training_set_is_not_rejected_witness:
  "preprocessData
     [\<lparr>sales_date = Null, product_description = [], quantity_sold = Undefined\<rparr>,
      \<lparr>sales_date = JStr ''1/5/2023'', product_description = ''Widget'',
       quantity_sold = JStr ''n/a''\<rparr>]
   = Inr (\<lparr>normalizedData = [], maxQuantity = NInf, minQuantity = PInf\<rparr>, [])"
  using empty_training_set_is_not_rejected
    [of "[\<lparr>sales_date = Null, product_description = [], quantity_sold = Undefined\<rparr>,
          \<lparr>sales_date = JStr ''1/5/2023'', product_description = ''Widget'',
           quantity_sold = JStr ''n/a''\<rparr>]"]
  by (simp add: invalid_entry_def isNaN_def number_defs)

text \<open>
  C6 as stated fails: on no data, \<open>preprocessData\<close> returns the scale parameters
  \<^verbatim>\<open>-Infinity\<close> and \<^verbatim>\<open>Infinity\<close> and no error; the run then ends with the error of a
  trainer that rejects empty input, and without error for a trainer that accepts it.
\<close>

theorem empty_training_set_reaches_the_trainer:
  "preprocessData [] = Inr (\<lparr>normalizedData = [], maxQuantity = NInf, minQuantity = PInf\<rparr>, [])
   \<and> handleTrainModel
       (\<lambda>xs ys. if xs = [] then Inl (LibraryError ''tensor2d'') else Inr (\<lambda>f. Inr (Fin 0)))
       \<lparr>productMap = [(''Widget'', 0)], startDate = ''2023-04'', selectedProduct = ''Widget'',
        predictions = []\<rparr> []
     = Inl (LibraryError ''tensor2d'')
   \<and> handleTrainModel (\<lambda>xs ys. Inr (\<lambda>f. Inr (Fin 0)))
       \<lparr>productMap = [], startDate = [], selectedProduct = [], predictions = []\<rparr> []
     = Inr \<lparr>productMap = [], startDate = [], selectedProduct = [], predictions = []\<rparr>"
  by (simp add: handleTrainModel_def preprocessData_def processData_def filter_Boolean_def
        Math_max_def Math_min_def trainModel_def predictSales_def predict_loop_unselected)

section \<open>The months of the loop\<close>

lemma monthNames_at_month:
  assumes "1 \<le> k" and "k \<le> 12"
  shows "monthNames_at (js_sub (Fin (of_int k)) (Fin 1)) = Some (monthNames ! nat (k - 1))"
proof -
  have "js_number (of_int (k - 1)) = Fin (of_int (k - 1))"
    by (rule js_number_of_int) (use assms in simp)
  then have "js_sub (Fin (of_int k)) (Fin 1) = Fin (of_int (k - 1))"
    by (simp add: js_sub_Fin)
  then show ?thesis
    using assms by (simp add: monthNames_at_def)
qed

section \<open>C7: the horizon of six months\<close>

text \<open>
  C7: let the start date give the year \<open>y\<close> (an integer of magnitude below \<open>2^53\<close>) and
  the month \<open>m\<close> from 1 to 12, and let a product be selected and the model return a
  value for every input. Then \<open>predictSales\<close> returns exactly six forecast points, in the
  order \<open>i = 0, ..., 5\<close>; the \<open>i\<close>-th is computed from the pair
  \<open>(y + (m + i - 1) div 12, (m + i - 1) mod 12 + 1)\<close>: its label is the name of that
  month and that year, and its features are those of that month. The months are
  consecutive: the month index \<open>year * 12 + month\<close> of the \<open>i\<close>-th pair is the start's
  plus \<open>i\<close>, so there is no gap and no duplicate, and every month is between 1 and 12.
  From the start date \<^verbatim>\<open>2023-11\<close> the points are labelled November 2023, December
  2023, January 2024, February 2024, March 2024 and April 2024.
\<close>

theorem horizon_consecutive_months:
  assumes "1 \<le> m" and "m \<le> 12" and "\<bar>y\<bar> < 2 ^ 53"
    and "element_at (start_parts (startDate st)) 0 = JNum (Fin (of_int y))"
    and "element_at (start_parts (startDate st)) 1 = JNum (Fin (of_int m))"
    and "selectedProduct st \<noteq> []"
  shows "predictSales (Inr \<circ> g) maxQ minQ st
           = Inr (st\<lparr>predictions :=
                    map (\<lambda>i. \<lparr>f_sales_date =
                                 (Some (monthNames ! nat ((m + int i - 1) mod 12)),
                                  Fin (of_int (y + (m + int i - 1) div 12))),
                               f_product_description = selectedProduct st,
                               f_quantity_sold =
                                 denormalize_q maxQ minQ
                                   (g (forecast_features (productMap st) (selectedProduct st)
                                         (Fin (of_int ((m + int i - 1) mod 12 + 1)))))\<rparr>)
                      [0..<6]\<rparr>)
         \<and> (\<forall>i<6. (y + (m + int i - 1) div 12) * 12 + ((m + int i - 1) mod 12 + 1)
                     = (y * 12 + m) + int i
                   \<and> 1 \<le> (m + int i - 1) mod 12 + 1 \<and> (m + int i - 1) mod 12 + 1 \<le> 12)
         \<and> predictSales (Inr \<circ> (\<lambda>f. Fin 0)) (Fin 1) (Fin 0)
             \<lparr>productMap = [(''Widget'', 0)], startDate = ''2023-11'',
              selectedProduct = ''Widget'', predictions = []\<rparr>
           = Inr \<lparr>productMap = [(''Widget'', 0)], startDate = ''2023-11'',
              selectedProduct = ''Widget'',
              predictions =
            [\<lparr>f_sales_date = (Some ''November'', Fin 2023), f_product_description = ''Widget'',
              f_quantity_sold = Fin 0\<rparr>,
             \<lparr>f_sales_date = (Some ''December'', Fin 2023), f_product_description = ''Widget'',
              f_quantity_sold = Fin 0\<rparr>,
             \<lparr>f_sales_date = (Some ''January'', Fin 2024), f_product_description = ''Widget'',
              f_quantity_sold = Fin 0\<rparr>,
             \<lparr>f_sales_date = (Some ''February'', Fin 2024), f_product_description = ''Widget'',
              f_quantity_sold = Fin 0\<rparr>,
             \<lparr>f_sales_date = (Some ''March'', Fin 2024), f_product_description = ''Widget'',
              f_quantity_sold = Fin 0\<rparr>,
             \<lparr>f_sales_date = (Some ''April'', Fin 2024), f_product_description = ''Widget'',
              f_quantity_sold = Fin 0\<rparr>]\<rparr>"
proof (intro conjI)
  let ?year = "element_at (start_parts (startDate st)) 0"
  let ?month = "element_at (start_parts (startDate st)) 1"
  have point: "forecast_point maxQ minQ st ?year ?month i
                 (g (forecast_features (productMap st) (selectedProduct st) (nextMonth ?month i)))
             = \<lparr>f_sales_date =
                  (Some (monthNames ! nat ((m + int i - 1) mod 12)),
                   Fin (of_int (y + (m + int i - 1) div 12))),
                f_product_description = selectedProduct st,
                f_quantity_sold =
                  denormalize_q maxQ minQ
                    (g (forecast_features (productMap st) (selectedProduct st)
                          (Fin (of_int ((m + int i - 1) mod 12 + 1)))))\<rparr>"
    if "i < 6" for i
  proof -
    let ?k = "(m + int i - 1) mod 12 + 1"
    have k: "1 \<le> ?k" "?k \<le> 12" by simp_all
    have nm: "nextMonth ?month i = Fin (of_int ?k)"
      by (simp only: assms(5) nextMonth_int[OF that assms(1,2)])
    have ny: "nextYear ?year ?month i = Fin (of_int (y + (m + int i - 1) div 12))"
      by (simp only: assms(4,5) nextYear_int[OF that assms(1,2,3)])
    have name: "monthNames_at (js_sub (Fin (of_int ?k)) (Fin 1))
                  = Some (monthNames ! nat ((m + int i - 1) mod 12))"
      using monthNames_at_month[OF k] by simp
    show ?thesis
      by (simp only: forecast_point_def nm ny name)
  qed
  show "predictSales (Inr \<circ> g) maxQ minQ st
           = Inr (st\<lparr>predictions :=
                    map (\<lambda>i. \<lparr>f_sales_date =
                                 (Some (monthNames ! nat ((m + int i - 1) mod 12)),
                                  Fin (of_int (y + (m + int i - 1) div 12))),
                               f_product_description = selectedProduct st,
                               f_quantity_sold =
                                 denormalize_q maxQ minQ
                                   (g (forecast_features (productMap st) (selectedProduct st)
                                         (Fin (of_int ((m + int i - 1) mod 12 + 1)))))\<rparr>)
                      [0..<6]\<rparr>)"
    unfolding predictSales_total[OF assms(6)]
    using point by (simp cong: map_cong)
  show "\<forall>i<6. (y + (m + int i - 1) div 12) * 12 + ((m + int i - 1) mod 12 + 1)
                     = (y * 12 + m) + int i
                   \<and> 1 \<le> (m + int i - 1) mod 12 + 1 \<and> (m + int i - 1) mod 12 + 1 \<le> 12"
    by presburger
  show "predictSales (Inr \<circ> (\<lambda>f. Fin 0)) (Fin 1) (Fin 0)
             \<lparr>productMap = [(''Widget'', 0)], startDate = ''2023-11'',
              selectedProduct = ''Widget'', predictions = []\<rparr>
           = Inr \<lparr>productMap = [(''Widget'', 0)], startDate = ''2023-11'',
              selectedProduct = ''Widget'',
              predictions =
            [\<lparr>f_sales_date = (Some ''November'', Fin 2023), f_product_description = ''Widget'',
              f_quantity_sold = Fin 0\<rparr>,
             \<lparr>f_sales_date = (Some ''December'', Fin 2023), f_product_description = ''Widget'',
              f_quantity_sold = Fin 0\<rparr>,
             \<lparr>f_sales_date = (Some ''January'', Fin 2024), f_product_description = ''Widget'',
              f_quantity_sold = Fin 0\<rparr>,
             \<lparr>f_sales_date = (Some ''February'', Fin 2024), f_product_description = ''Widget'',
              f_quantity_sold = Fin 0\<rparr>,
             \<lparr>f_sales_date = (Some ''March'', Fin 2024), f_product_description = ''Widget'',
              f_quantity_sold = Fin 0\<rparr>,
             \<lparr>f_sales_date = (Some ''April'', Fin 2024), f_product_description = ''Widget'',
              f_quantity_sold = Fin 0\<rparr>]\<rparr>"
    by (simp add: predictSales_total predict_defs number_defs)
qed

theorem horizon_consecutive_months_witness:
  "predictSales (Inr \<circ> (\<lambda>f. Fin 0)) (Fin 1) (Fin 0)
     \<lparr>productMap = [(''Widget'', 0)], startDate = ''2022-09'',
      selectedProduct = ''Widget'', predictions = []\<rparr>
   = Inr \<lparr>productMap = [(''Widget'', 0)], startDate = ''2022-09'',
      selectedProduct = ''Widget'',
      predictions =
            [\<lparr>f_sales_date = (Some ''September'', Fin 2022), f_product_description = ''Widget'',
              f_quantity_sold = Fin 0\<rparr>,
             \<lparr>f_sales_date = (Some ''October'', Fin 2022), f_product_description = ''Widget'',
              f_quantity_sold = Fin 0\<rparr>,
             \<lparr>f_sales_date = (Some ''November'', Fin 2022), f_product_description = ''Widget'',
              f_quantity_sold = Fin 0\<rparr>,
             \<lparr>f_sales_date = (Some ''December'', Fin 2022), f_product_description = ''Widget'',
              f_quantity_sold = Fin 0\<rparr>,
             \<lparr>f_sales_date = (Some ''January'', Fin 2023), f_product_description = ''Widget'',
              f_quantity_sold = Fin 0\<rparr>,
             \<lparr>f_sales_date = (Some ''February'', Fin 2023), f_product_description = ''Widget'',
              f_quantity_sold = Fin 0\<rparr>]\<rparr>"
  using horizon_consecutive_months
    [of 9 2022 "\<lparr>productMap = [(''Widget'', 0)], startDate = ''2022-09'',
      selectedProduct = ''Widget'', predictions = []\<rparr>" "\<lambda>f. Fin 0" "Fin 1" "Fin 0"]
  by (simp add: start_parts_def element_at_def number_defs upt_0_6 monthNames_def
        denormalize_q_def js_sub_def)

section \<open>The product codes of names that are not inherited\<close>

text \<open>
  When no entry that passes the validation is named like a property of
  \<^verbatim>\<open>Object.prototype\<close>, the product map is \<open>dense_codes\<close> of the descriptions in the
  order of their first appearance, and every processed record carries the code that this
  map gives its description: the \<open>i\<close>-th description to appear has the code \<open>i\<close>.
\<close>

lemma first_seen_from_Nil: "first_seen_from ks [] = ks"
  by (simp add: first_seen_from_def)

lemma first_seen_from_Cons:
  "first_seen_from ks (d # ds) = first_seen_from (if d \<in> set ks then ks else ks @ [d]) ds"
  by (simp add: first_seen_from_def)

lemma first_seen_from_extends: "\<exists>zs. first_seen_from ks ds = ks @ zs"
proof (induction ds arbitrary: ks)
  case Nil
  show ?case by (simp add: first_seen_from_Nil)
next
  case (Cons d ds)
  from Cons[of "if d \<in> set ks then ks else ks @ [d]"] show ?case
    by (auto simp: first_seen_from_Cons)
qed

lemma dense_codes_snoc: "dense_codes (ks @ [d]) = dense_codes ks @ [(d, length ks)]"
  by (simp add: dense_codes_def)

lemma fst_dense_codes: "fst ` set (dense_codes ks) = set ks"
proof -
  have "map fst (dense_codes ks) = ks" by (simp add: dense_codes_def)
  then have "set (map fst (dense_codes ks)) = set ks" by simp
  then show ?thesis by simp
qed

lemma map_of_dense_codes_append:
  assumes "d \<in> set ks"
  shows "map_of (dense_codes (ks @ zs)) d = map_of (dense_codes ks) d"
proof -
  have "[0..<length ks + length zs] = [0..<length ks] @ [length ks..<length ks + length zs]"
    by (rule upt_add_eq_append) simp
  then have "dense_codes (ks @ zs)
          = dense_codes ks @ zip zs [length ks..<length ks + length zs]"
    by (simp add: dense_codes_def)
  moreover from assms have "d \<in> dom (map_of (dense_codes ks))"
    by (simp add: dom_map_of_conv_image_fst fst_dense_codes)
  ultimately show ?thesis
    by (simp add: map_add_dom_app_simps)
qed

lemma has_property_dense:
  "d \<notin> set Object_prototype_keys \<Longrightarrow> has_property (dense_codes ks) d = (d \<in> set ks)"
  by (simp add: has_property_def fst_dense_codes)

lemma get_property_own:
  "d \<notin> set Object_prototype_keys \<Longrightarrow> get_property pm d = map_option Code (map_of pm d)"
  by (simp add: get_property_def split: option.split)

lemma map_entry_dense:
  assumes "\<not> invalid_entry e" and "is_string (sales_date e)"
    and "product_description e \<notin> set Object_prototype_keys"
  shows "\<exists>r. map_entry (dense_codes ks, length ks) e
               = Inr (Some r, (dense_codes (first_seen_from ks [product_description e]),
                               length (first_seen_from ks [product_description e])))
             \<and> d_product_description r
                 = map_option Code
                     (map_of (dense_codes (first_seen_from ks [product_description e]))
                        (product_description e))"
proof -
  from assms(2) obtain s where s: "sales_date e = JStr s"
    by (auto simp: is_string_def split: jsval.splits)
  obtain m where m: "month_index s = Inr m"
    using month_index_total by blast
  show ?thesis
    using assms(1,3) s m
    by (simp add: map_entry_def Let_def has_property_dense get_property_own
          first_seen_from_Cons first_seen_from_Nil add_property_def dense_codes_snoc)
qed

lemma map_entries_dense:
  assumes "\<forall>e\<in>set data. \<not> invalid_entry e \<longrightarrow>
             is_string (sales_date e) \<and> product_description e \<notin> set Object_prototype_keys"
  shows "\<exists>mapped.
           map_entries (dense_codes ks, length ks) data
             = Inr (mapped,
                    (dense_codes (first_seen_from ks
                       (map product_description (filter (\<lambda>e. \<not> invalid_entry e) data))),
                     length (first_seen_from ks
                       (map product_description (filter (\<lambda>e. \<not> invalid_entry e) data)))))
         \<and> map d_product_description (filter_Boolean mapped)
             = map (\<lambda>e. map_option Code
                          (map_of (dense_codes (first_seen_from ks
                             (map product_description (filter (\<lambda>e. \<not> invalid_entry e) data))))
                             (product_description e)))
                 (filter (\<lambda>e. \<not> invalid_entry e) data)"
  using assms
proof (induction data arbitrary: ks)
  case Nil
  show ?case by (simp add: first_seen_from_Nil filter_Boolean_Nil)
next
  case (Cons e es)
  show ?case
  proof (cases "invalid_entry e")
    case True
    from Cons.IH[of ks] Cons.prems True show ?thesis
      by (auto simp: map_entry_invalid filter_Boolean_Cons)
  next
    case False
    let ?d = "product_description e"
    let ?k1 = "first_seen_from ks [?d]"
    let ?valid = "filter (\<lambda>e. \<not> invalid_entry e) es"
    let ?kf = "first_seen_from ?k1 (map product_description ?valid)"
    from False Cons.prems have str: "is_string (sales_date e)"
      and own: "?d \<notin> set Object_prototype_keys" by simp_all
    from map_entry_dense[OF False str own, of ks] obtain r where
      r: "map_entry (dense_codes ks, length ks) e = Inr (Some r, (dense_codes ?k1, length ?k1))"
      and code: "d_product_description r = map_option Code (map_of (dense_codes ?k1) ?d)"
      by blast
    from Cons.IH[of ?k1] Cons.prems obtain mapped where
      rest: "map_entries (dense_codes ?k1, length ?k1) es
               = Inr (mapped, (dense_codes ?kf, length ?kf))"
      and codes: "map d_product_description (filter_Boolean mapped)
               = map (\<lambda>e. map_option Code (map_of (dense_codes ?kf) (product_description e)))
                   ?valid"
      by auto
    have kf: "first_seen_from ks (map product_description (filter (\<lambda>e. \<not> invalid_entry e) (e # es)))
                = ?kf"
      using False by (simp add: first_seen_from_Cons first_seen_from_Nil)
    have "?d \<in> set ?k1"
      by (simp add: first_seen_from_Cons first_seen_from_Nil)
    moreover obtain zs where "?kf = ?k1 @ zs"
      using first_seen_from_extends by blast
    ultimately have stable: "map_of (dense_codes ?kf) ?d = map_of (dense_codes ?k1) ?d"
      by (simp add: map_of_dense_codes_append)
    show ?thesis
      unfolding kf using False r rest codes code stable
      by (simp add: filter_Boolean_Cons)
  qed
qed

lemma codes_are_first_seen_and_dense:
  assumes "\<forall>e\<in>set data. \<not> invalid_entry e \<longrightarrow>
             is_string (sales_date e) \<and> product_description e \<notin> set Object_prototype_keys"
  shows "\<exists>recs.
           processData data
             = Inr (recs, dense_codes (first_seen
                       (map product_description (filter (\<lambda>e. \<not> invalid_entry e) data))))
         \<and> map d_product_description recs
             = map (\<lambda>e. map_option Code
                          (map_of (dense_codes (first_seen
                             (map product_description (filter (\<lambda>e. \<not> invalid_entry e) data))))
                             (product_description e)))
                 (filter (\<lambda>e. \<not> invalid_entry e) data)"
proof -
  have start: "([], 0) = (dense_codes [], length ([] :: string list))"
    by (simp add: dense_codes_def)
  from map_entries_dense[OF assms, of "[]"] show ?thesis
    unfolding processData_def start first_seen_def by auto
qed

lemma dense_codes_lookup:
  assumes "distinct ks" and "i < length ks"
  shows "map_of (dense_codes ks) (ks ! i) = Some i"
proof -
  have "distinct (map fst (dense_codes ks))"
    using assms(1) by (simp add: dense_codes_def)
  moreover have "(ks ! i, i) \<in> set (dense_codes ks)"
    using assms(2) by (auto simp: dense_codes_def set_zip)
  ultimately show ?thesis by simp
qed

lemma distinct_first_seen_from: "distinct ks \<Longrightarrow> distinct (first_seen_from ks ds)"
  by (induction ds arbitrary: ks) (simp_all add: first_seen_from_Nil first_seen_from_Cons)

lemma set_first_seen_from: "set (first_seen_from ks ds) = set ks \<union> set ds"
  by (induction ds arbitrary: ks) (auto simp: first_seen_from_Nil first_seen_from_Cons)

lemma first_seen_codes:
  "distinct (first_seen ds) \<and> set (first_seen ds) = set ds
   \<and> (\<forall>i<length (first_seen ds). map_of (dense_codes (first_seen ds)) (first_seen ds ! i) = Some i)"
proof -
  have d: "distinct (first_seen ds)"
    unfolding first_seen_def by (rule distinct_first_seen_from) simp
  have "set (first_seen ds) = set ds"
    by (simp add: first_seen_def set_first_seen_from)
  with d show ?thesis by (simp add: dense_codes_lookup)
qed

section \<open>C8: the product codes\<close>

text \<open>
  C8 says that codes are given from 0 in the order of first appearance, for any sequence
  of records. The test \<^verbatim>\<open>in\<close> of line 60 also finds the properties inherited from
  \<^verbatim>\<open>Object.prototype\<close>: a product named \<^verbatim>\<open>constructor\<close> is the first to appear
  here, gets no code and is not put in the map; its records carry the inherited member,
  and code 0 goes to the product that appears second.
\<close>

theorem inherited_name_gets_no_code:
  "processData
     [\<lparr>sales_date = JStr ''1/1/2023'', product_description = ''constructor'',
       quantity_sold = JNum (Fin 5)\<rparr>,
      \<lparr>sales_date = JStr ''2/1/2023'', product_description = ''Widget'',
       quantity_sold = JNum (Fin 7)\<rparr>,
      \<lparr>sales_date = JStr ''3/1/2023'', product_description = ''constructor'',
       quantity_sold = JNum (Fin 6)\<rparr>]
   = Inr ([\<lparr>d_month = Fin 24277, d_product_description = Some (Inherited ''constructor''),
            d_quantity_sold = JNum (Fin 5)\<rparr>,
           \<lparr>d_month = Fin 24278, d_product_description = Some (Code 0),
            d_quantity_sold = JNum (Fin 7)\<rparr>,
           \<lparr>d_month = Fin 24279, d_product_description = Some (Inherited ''constructor''),
            d_quantity_sold = JNum (Fin 6)\<rparr>],
          [(''Widget'', 0)])"
  by (simp add: preprocess_defs number_defs)

section \<open>C9: a start date that cannot be parsed\<close>

text \<open>
  C9 as the code has it: \<open>predictSales\<close> does not validate the start date. With a
  product selected and a model that returns a value for every input, it returns six
  forecast points for every start string; when the string has no \<^verbatim>\<open>-\<close>, the month
  is \<^verbatim>\<open>undefined\<close> and every label is built from \<^verbatim>\<open>undefined\<close> and NaN. The only
  failure is one the model raises.
\<close>

theorem start_date_is_never_rejected:
  assumes "selectedProduct st \<noteq> []"
  shows "\<exists>fp. predictSales (Inr \<circ> g) maxQ minQ st = Inr (st\<lparr>predictions := fp\<rparr>)
           \<and> length fp = 6
           \<and> (CHR ''-'' \<notin> set (startDate st) \<longrightarrow> (\<forall>p\<in>set fp. f_sales_date p = (None, NaN)))
           \<and> (\<forall>mdl err. predictSales mdl maxQ minQ st = Inl err \<longrightarrow> (\<exists>f. mdl f = Inl err))"
proof -
  let ?year = "element_at (start_parts (startDate st)) 0"
  let ?month = "element_at (start_parts (startDate st)) 1"
  let ?fp = "map (\<lambda>i. forecast_point maxQ minQ st ?year ?month i
                        (g (forecast_features (productMap st) (selectedProduct st)
                              (nextMonth ?month i)))) [0..<6]"
  have run: "predictSales (Inr \<circ> g) maxQ minQ st = Inr (st\<lparr>predictions := ?fp\<rparr>)"
    by (rule predictSales_total[OF assms])
  have len: "length ?fp = 6" by simp
  have garbage: "\<forall>p\<in>set ?fp. f_sales_date p = (None, NaN)"
    if "CHR ''-'' \<notin> set (startDate st)"
  proof -
    from that have "?month = Undefined" by (rule month_absent_without_separator)
    then show ?thesis
      by (simp add: forecast_point_def nextMonth_Undefined nextYear_Undefined
            monthNames_at_def js_sub_def)
  qed
  have err: "\<exists>f. mdl f = Inl err" if "predictSales mdl maxQ minQ st = Inl err" for mdl err
    using predictSales_error[OF that] by blast
  from run len garbage err show ?thesis by blast
qed

theorem start_date_is_never_rejected_witness:
  "\<exists>fp. predictSales (Inr \<circ> (\<lambda>f. Fin (1 / 2))) (Fin 20) (Fin 10)
           \<lparr>productMap = [(''Widget'', 0)], startDate = ''soon'', selectedProduct = ''Widget'',
            predictions = []\<rparr>
         = Inr \<lparr>productMap = [(''Widget'', 0)], startDate = ''soon'', selectedProduct = ''Widget'',
            predictions = fp\<rparr>
       \<and> length fp = 6 \<and> map f_sales_date fp = replicate 6 (None, NaN)"
proof -
  from start_date_is_never_rejected
    [of "\<lparr>productMap = [(''Widget'', 0)], startDate = ''soon'', selectedProduct = ''Widget'',
            predictions = []\<rparr>" "\<lambda>f. Fin (1 / 2)" "Fin 20" "Fin 10"]
  obtain fp where
    fp: "predictSales (Inr \<circ> (\<lambda>f. Fin (1 / 2))) (Fin 20) (Fin 10)
           \<lparr>productMap = [(''Widget'', 0)], startDate = ''soon'', selectedProduct = ''Widget'',
            predictions = []\<rparr>
         = Inr \<lparr>productMap = [(''Widget'', 0)], startDate = ''soon'', selectedProduct = ''Widget'',
            predictions = fp\<rparr>"
    and len: "length fp = 6"
    and lab: "\<forall>p\<in>set fp. f_sales_date p = (None, NaN)"
    by auto
  from lab len have "map f_sales_date fp = replicate 6 (None, NaN)"
    by (metis length_map map_replicate_const map_eq_conv)
  with fp len show ?thesis by blast
qed

text \<open>
  C9 as stated fails: the start date \<^verbatim>\<open>next spring\<close> gives six forecast points
  labelled \<^verbatim>\<open>undefined NaN\<close>, and no error.
\<close>

theorem unparsable_start_date_returns_predictions:
  "predictSales (Inr \<circ> (\<lambda>f. Fin (1 / 2))) (Fin 20) (Fin 10)
     \<lparr>productMap = [(''Widget'', 0)], startDate = ''next spring'', selectedProduct = ''Widget'',
      predictions = []\<rparr>
   = Inr \<lparr>productMap = [(''Widget'', 0)], startDate = ''next spring'',
          selectedProduct = ''Widget'',
          predictions =
            [\<lparr>f_sales_date = (None, NaN), f_product_description = ''Widget'',
              f_quantity_sold = Fin 15\<rparr>,
             \<lparr>f_sales_date = (None, NaN), f_product_description = ''Widget'',
              f_quantity_sold = Fin 15\<rparr>,
             \<lparr>f_sales_date = (None, NaN), f_product_description = ''Widget'',
              f_quantity_sold = Fin 15\<rparr>,
             \<lparr>f_sales_date = (None, NaN), f_product_description = ''Widget'',
              f_quantity_sold = Fin 15\<rparr>,
             \<lparr>f_sales_date = (None, NaN), f_product_description = ''Widget'',
              f_quantity_sold = Fin 15\<rparr>,
             \<lparr>f_sales_date = (None, NaN), f_product_description = ''Widget'',
              f_quantity_sold = Fin 15\<rparr>]\<rparr>"
  by (simp add: predictSales_total predict_defs number_defs js_add_NaN_right)

section \<open>C10: no product selected\<close>

text \<open>
  C10: when the selected product is the empty string, \<open>predictSales\<close> raises no error
  and sets the predictions to the empty list, whatever the model, the scale and the
  start date are: the six iterations push nothing, and the model is not consulted. The
  selected product is a string (the value of the selection control), so it is falsy
  exactly when it is empty.
\<close>

theorem predictSales_no_product_selected:
  "predictSales mdl maxQ minQ (st\<lparr>selectedProduct := []\<rparr>)
     = Inr (st\<lparr>selectedProduct := [], predictions := []\<rparr>)"
  by (simp add: predictSales_def predict_loop_unselected)

theorem predictSales_no_product_selected_witness:
  "predictSales (\<lambda>f. Inl (LibraryError ''not called'')) (Fin 20) (Fin 10)
     \<lparr>productMap = [(''Widget'', 0)], startDate = ''2023-04'', selectedProduct = [],
      predictions = [\<lparr>f_sales_date = (Some ''May'', Fin 2022),
                      f_product_description = ''Widget'', f_quantity_sold = Fin 12\<rparr>]\<rparr>
   = Inr \<lparr>productMap = [(''Widget'', 0)], startDate = ''2023-04'', selectedProduct = [],
          predictions = []\<rparr>"
  using predictSales_no_product_selected
    [of "\<lambda>f. Inl (LibraryError ''not called'')" "Fin 20" "Fin 10"
        "\<lparr>productMap = [(''Widget'', 0)], startDate = ''2023-04'', selectedProduct = [],
          predictions = [\<lparr>f_sales_date = (Some ''May'', Fin 2022),
                      f_product_description = ''Widget'', f_quantity_sold = Fin 12\<rparr>]\<rparr>"]
  by simp

end
